theory Spec2Isabelle
  imports Complex_Main "HOL-Library.Char_ord" "HOL-Library.List_Lexorder" "HOL-Library.Multiset"
begin

section \<open>The membership and payment ledger of the gym management system\<close>

text \<open>
  The program is a Tkinter application (\<^verbatim>\<open>src/main.py\<close>) over an SQLite database whose
  schema is created by \<^verbatim>\<open>src/db.py\<close>. Each method of \<^verbatim>\<open>GymManagementSystem\<close> that the
  ledger consists of is embedded as a function on an explicit application state. The
  widgets a method reads (entries, comboboxes, the tree selection) are its parameters;
  message boxes and log lines are the error value it returns.

  Conventions of the embedding:
  \<^item> a table is the list of its rows in insertion order, the order in which SQLite scans
    it. A query that SQLite answers from an index returns its rows in another order: where
    one row is fetched (\<^verbatim>\<open>search_member\<close>) the index order is modelled, and where all rows
    are (\<^verbatim>\<open>generate_payment_report\<close>) the property is about the rows as a multiset;
  \<^item> an SQLite \<^verbatim>\<open>REAL\<close> and a Python \<^verbatim>\<open>float\<close> are a \<^typ>\<open>real\<close>: the ledger only adds
    400, compares and sums, and rounding is not modelled;
  \<^item> an SQLite \<^verbatim>\<open>TEXT\<close> is a \<^typ>\<open>string\<close>, a nullable column an \<^typ>\<open>'a option\<close>;
  \<^item> \<^verbatim>\<open>datetime.now()\<close> is a parameter: \<open>now\<close> for the \<^verbatim>\<open>"%Y-%m-%d %H:%M:%S"\<close> stamp,
    \<open>today\<close> for the \<^verbatim>\<open>"%Y-%m-%d"\<close> one.
\<close>

subsection \<open>Schema (src/db.py)\<close>

record member =
  user_id :: string
  name :: string
  contact :: string
  cnic :: string
  location :: "string option"
  designation :: "string option"
  join_date :: string
  expiry_date :: string
  sport_category :: string
  membership_type :: string
  has_treadmill :: bool
  base_fee :: real
  total_fee :: real
  is_active :: bool
  updated_at :: string
  photo_path :: "string option"

record payment =
  payment_id :: nat
  p_user_id :: string
  amount :: real
  payment_date :: string
  month :: string
  period :: "string option"
  p_updated_at :: string

text \<open>
  The database: both tables, and the \<^verbatim>\<open>AUTOINCREMENT\<close> counter of \<^verbatim>\<open>payments.id\<close>
  (SQLite's \<^verbatim>\<open>sqlite_sequence\<close> row).
\<close>

record db =
  members :: "member list"
  payments :: "payment list"
  seq :: nat

text \<open>
  The application object. \<^verbatim>\<open>self.conn\<close> is one \<^verbatim>\<open>sqlite3\<close> connection in the module's
  default transaction mode: a data-changing statement opens a transaction if none is open,
  every statement of the same connection reads the open transaction's changes, and
  \<^verbatim>\<open>self.conn.commit()\<close> makes them durable. \<open>conn\<close> is the database as the connection sees
  it, \<open>committed\<close> the database as of the last commit. No method calls \<^verbatim>\<open>rollback()\<close>.
  A statement that fails on a constraint changes nothing itself and leaves the open
  transaction, with the earlier statements' changes, as it was.
  \<open>current_member\<close> is the attribute \<^verbatim>\<open>self.current_member\<close>, absent (\<open>None\<close>) until
  \<^verbatim>\<open>search_member\<close> binds it; it holds the row as it was when it was read (the program
  keeps fourteen of its columns; the record keeps them all).
\<close>

record app =
  conn :: db
  committed :: db
  current_member :: "member option"

definition commit :: "app \<Rightarrow> app" where
  "commit st = st\<lparr>committed := conn st\<rparr>"

text \<open>
  What a method reports. The program shows a message box and returns; the constructors
  carry the names the specification gives to the messages.
\<close>

datatype error =
    NoActiveMemberError
  | ValidationError string
  | AmountMismatchError
  | PeriodExhaustedError
  | DuplicatePaymentError
  | DuplicateKeyError
  | InvalidAmount
  | NoSelection
  | NotFound
  | Failure

subsection \<open>Regular expressions of the validators\<close>

text \<open>
  \<^verbatim>\<open>\d\<close> on the characters of a \<^typ>\<open>string\<close>: the ten ASCII digits (Python's \<^verbatim>\<open>\d\<close>
  also matches the decimal digits of other scripts, which a \<^typ>\<open>string\<close> of bytes does
  not hold as single characters). The values matched are entry texts after
  \<^verbatim>\<open>strip()\<close>, so they end in no newline, and \<^verbatim>\<open>^...$\<close> under \<^verbatim>\<open>re.match\<close> is a match
  of the whole text.
\<close>

definition is_digit :: "char \<Rightarrow> bool" where
  "is_digit c = (c \<in> set ''0123456789'')"

definition all_digits :: "string \<Rightarrow> bool" where
  "all_digits s = list_all is_digit s"

text \<open>\<^verbatim>\<open>re.match(r'^\d{4}-\d{2}$', month)\<close>\<close>

definition month_format :: "string \<Rightarrow> bool" where
  "month_format s =
     (length s = 7 \<and> all_digits (take 4 s) \<and> s ! 4 = CHR ''-'' \<and> all_digits (drop 5 s))"

subsection \<open>SQL statements of record_payment\<close>

text \<open>
  \<^verbatim>\<open>UPDATE members SET membership_type=?, updated_at=? WHERE user_id=?\<close>. The column has
  \<^verbatim>\<open>CHECK(membership_type IN ('15-day', '30-day'))\<close>: a row that the statement would
  rewrite to another value aborts it with \<^verbatim>\<open>sqlite3.IntegrityError\<close> (\<open>None\<close>), and
  nothing is rewritten.
\<close>

definition membership_check :: "string \<Rightarrow> bool" where
  "membership_check mt = (mt = ''15-day'' \<or> mt = ''30-day'')"

definition update_membership_type :: "string \<Rightarrow> string \<Rightarrow> string \<Rightarrow> db \<Rightarrow> db option" where
  "update_membership_type mt now uid d =
     (if \<not> membership_check mt \<and> list_ex (\<lambda>r. user_id r = uid) (members d) then None
      else Some (d\<lparr>members :=
        map (\<lambda>r. if user_id r = uid then r\<lparr>membership_type := mt, updated_at := now\<rparr> else r)
          (members d)\<rparr>))"

text \<open>
  \<^verbatim>\<open>UNIQUE(user_id, month, period)\<close> on \<^verbatim>\<open>payments\<close>. In SQLite (as in standard SQL) a
  \<^verbatim>\<open>NULL\<close> is distinct from every value of a \<^verbatim>\<open>UNIQUE\<close> constraint, another \<^verbatim>\<open>NULL\<close>
  included: a new row conflicts with an old one only when all three columns are equal and
  the period is not \<^verbatim>\<open>NULL\<close>.
\<close>

definition unique_conflict :: "payment \<Rightarrow> payment \<Rightarrow> bool" where
  "unique_conflict p q =
     (p_user_id q = p_user_id p \<and> month q = month p \<and>
      period p \<noteq> None \<and> period q = period p)"

text \<open>
  \<^verbatim>\<open>INSERT INTO payments (user_id, amount, payment_date, month, period, updated_at)\<close>:
  \<open>None\<close> is \<^verbatim>\<open>sqlite3.IntegrityError\<close>. The new row takes the next \<^verbatim>\<open>id\<close>. Foreign keys
  are not enforced (the connection never sets \<^verbatim>\<open>PRAGMA foreign_keys\<close>), so the member
  row need not exist.
\<close>

definition new_payment ::
  "string \<Rightarrow> string \<Rightarrow> string \<Rightarrow> real \<Rightarrow> string \<Rightarrow> string option \<Rightarrow> db \<Rightarrow> payment" where
  "new_payment now today uid amt mo per d =
     \<lparr>payment_id = Suc (seq d), p_user_id = uid, amount = amt, payment_date = today,
      month = mo, period = per, p_updated_at = now\<rparr>"

definition insert_payment ::
  "string \<Rightarrow> string \<Rightarrow> string \<Rightarrow> real \<Rightarrow> string \<Rightarrow> string option \<Rightarrow> db \<Rightarrow> db option" where
  "insert_payment now today uid amt mo per d =
     (let p = new_payment now today uid amt mo per d
      in if list_ex (unique_conflict p) (payments d) then None
         else Some (d\<lparr>payments := payments d @ [p], seq := Suc (seq d)\<rparr>))"

text \<open>
  \<^verbatim>\<open>SELECT period FROM payments WHERE user_id=? AND month=?\<close>
\<close>

definition existing_periods :: "string \<Rightarrow> string \<Rightarrow> payment list \<Rightarrow> string option list" where
  "existing_periods uid mo ps =
     map period (filter (\<lambda>p. p_user_id p = uid \<and> month p = mo) ps)"

subsection \<open>GymManagementSystem.record_payment\<close>

text \<open>
  The last step of a payment: the insert, the commit and \<^verbatim>\<open>delattr(self, 'current_member')\<close>;
  an \<^verbatim>\<open>IntegrityError\<close> is reported as a duplicate payment and leaves the connection as
  the earlier statements of the call made it.
\<close>

definition insert_and_commit ::
  "string \<Rightarrow> string \<Rightarrow> string \<Rightarrow> real \<Rightarrow> string \<Rightarrow> string option \<Rightarrow> app \<Rightarrow>
   (error + string option) \<times> app" where
  "insert_and_commit now today uid amt mo per st =
     (case insert_payment now today uid amt mo per (conn st) of
        None \<Rightarrow> (Inl DuplicatePaymentError, st)
      | Some d \<Rightarrow> (Inr per, (commit (st\<lparr>conn := d\<rparr>))\<lparr>current_member := None\<rparr>))"

text \<open>
  \<open>amount_entry\<close> is \<^verbatim>\<open>float(self.amount_entry.get())\<close>, \<open>None\<close> when \<^verbatim>\<open>float\<close> raises
  \<^verbatim>\<open>ValueError\<close>; \<open>mo\<close> is \<^verbatim>\<open>self.month_entry.get().strip()\<close>; \<open>mt\<close> is
  \<^verbatim>\<open>self.payment_membership_var.get()\<close>. The amount and the plan are compared with the
  bound row \<^verbatim>\<open>self.current_member\<close> (columns 12 and 9), not with the table. On success
  the result is the period written. The method is given in three steps: the plan change
  (the \<^verbatim>\<open>UPDATE\<close>, run only when the plan chosen differs from the bound row's), the
  choice of the period, and the insert.
\<close>

definition change_plan :: "string \<Rightarrow> string \<Rightarrow> member \<Rightarrow> app \<Rightarrow> app option" where
  "change_plan mt now cm st =
     (if mt \<noteq> membership_type cm then
        (case update_membership_type mt now (user_id cm) (conn st) of
           None \<Rightarrow> None
         | Some d \<Rightarrow> Some (st\<lparr>conn := d\<rparr>))
      else Some st)"

definition allocate_period :: "string \<Rightarrow> string \<Rightarrow> string \<Rightarrow> db \<Rightarrow> error + string option" where
  "allocate_period mt uid mo d =
     (if mt = ''15-day'' then
        (let ex = existing_periods uid mo (payments d)
         in if Some ''first_half'' \<notin> set ex then Inr (Some ''first_half'')
            else if Some ''second_half'' \<notin> set ex then Inr (Some ''second_half'')
            else Inl PeriodExhaustedError)
      else Inr None)"

definition record_payment ::
  "string \<Rightarrow> string \<Rightarrow> real option \<Rightarrow> string \<Rightarrow> string \<Rightarrow> app \<Rightarrow> (error + string option) \<times> app" where
  "record_payment now today amount_entry mo mt st =
     (case current_member st of
        None \<Rightarrow> (Inl NoActiveMemberError, st)
      | Some cm \<Rightarrow>
         (case amount_entry of
            None \<Rightarrow> (Inl InvalidAmount, st)
          | Some amt \<Rightarrow>
             if amt \<le> 0 then (Inl (ValidationError ''amount''), st)
             else if \<not> month_format mo then (Inl (ValidationError ''month''), st)
             else if mt = [] then (Inl (ValidationError ''membership_type''), st)
             else if amt \<noteq> total_fee cm then (Inl AmountMismatchError, st)
             else
               (case change_plan mt now cm st of
                  None \<Rightarrow> (Inl DuplicatePaymentError, st)
                | Some st1 \<Rightarrow>
                   (case allocate_period mt (user_id cm) mo (conn st1) of
                      Inl e \<Rightarrow> (Inl e, st1)
                    | Inr per \<Rightarrow> insert_and_commit now today (user_id cm) amt mo per st1))))"

subsection \<open>GymManagementSystem.search_member\<close>

text \<open>
  The search of the payment tab: \<^verbatim>\<open>WHERE (user_id=? OR cnic=?) AND is_active=1\<close> with
  \<^verbatim>\<open>fetchone()\<close>. SQLite answers the \<^verbatim>\<open>OR\<close> from the two unique indexes in turn, the
  primary key's first (its plan is \<^verbatim>\<open>MULTI-INDEX OR\<close>): the row fetched is the active row
  of that user id when there is one, otherwise the active row of that CNIC, wherever the
  rows lie in the table.
\<close>

definition search_member_row :: "string \<Rightarrow> member list \<Rightarrow> member option" where
  "search_member_row v ms =
     (case find (\<lambda>r. user_id r = v \<and> is_active r) ms of
        Some m \<Rightarrow> Some m
      | None \<Rightarrow> find (\<lambda>r. cnic r = v \<and> is_active r) ms)"

text \<open>
  \<open>v\<close> is \<^verbatim>\<open>self.search_entry.get().strip()\<close>. A row found is bound to
  \<^verbatim>\<open>self.current_member\<close>; when none is found the attribute keeps what it had.
\<close>

definition search_member :: "string \<Rightarrow> app \<Rightarrow> (error + member) \<times> app" where
  "search_member v st =
     (if v = [] then (Inl (ValidationError ''search''), st)
      else (case search_member_row v (members (conn st)) of
              None \<Rightarrow> (Inl NotFound, st)
            | Some m \<Rightarrow> (Inr m, st\<lparr>current_member := Some m\<rparr>)))"

subsection \<open>RecordPayment with the member as a parameter\<close>

text \<open>
  The specification's \<^verbatim>\<open>RecordPayment(member, amount, month, membership_type)\<close> names the
  member; the program binds it first. \<open>pay\<close> is that sequence: \<open>search_member\<close> on the
  member's user id or CNIC, then \<open>record_payment\<close>.
\<close>

definition pay ::
  "string \<Rightarrow> string \<Rightarrow> string \<Rightarrow> real \<Rightarrow> string \<Rightarrow> string \<Rightarrow> app \<Rightarrow> (error + string option) \<times> app" where
  "pay now today v amt mo mt st =
     record_payment now today (Some amt) mo mt (snd (search_member v st))"

text \<open>
  The columns of a member row that \<open>record_payment\<close> has no statement for: all but
  \<open>membership_type\<close> and \<open>updated_at\<close>, which \<open>frame\<close> blanks.
\<close>

definition frame :: "member \<Rightarrow> member" where
  "frame r = r\<lparr>membership_type := [], updated_at := []\<rparr>"

subsection \<open>Validators of the member form\<close>

text \<open>
  \<^verbatim>\<open>^\d+$\<close>, \<^verbatim>\<open>^\d{13}$\<close> and \<^verbatim>\<open>^\d{10,15}$\<close>.
\<close>

definition validate_user_id :: "string \<Rightarrow> bool" where
  "validate_user_id s = (s \<noteq> [] \<and> all_digits s)"

definition validate_cnic :: "string \<Rightarrow> bool" where
  "validate_cnic s = (length s = 13 \<and> all_digits s)"

definition validate_contact :: "string \<Rightarrow> bool" where
  "validate_contact s = (10 \<le> length s \<and> length s \<le> 15 \<and> all_digits s)"

text \<open>
  \<open>validate_date\<close> is \<^verbatim>\<open>datetime.strptime(date_str, "%Y-%m-%d")\<close> not raising. The
  library function is not part of the repository; it is modelled from CPython's
  \<^verbatim>\<open>Lib/_strptime.py\<close> and the library reference. The format compiles to the pattern
  \<^verbatim>\<open>(?P<Y>\d\d\d\d)-(?P<m>1[0-2]|0[1-9]|[1-9])-(?P<d>3[0-1]|[1-2]\d|0[1-9]|[1-9]| [1-9])\<close>,
  which must match the whole text: for \<^verbatim>\<open>%m\<close> and \<^verbatim>\<open>%d\<close> the leading zero is optional.
  The fields must then be a date of the calendar (year 1 to 9999, the day within the
  month's length).
\<close>

fun split_dash :: "string \<Rightarrow> string list" where
  "split_dash [] = [[]]"
| "split_dash (c # cs) =
     (if c = CHR ''-'' then [] # split_dash cs
      else (case split_dash cs of [] \<Rightarrow> [[c]] | x # xs \<Rightarrow> (c # x) # xs))"

definition digit_val :: "char \<Rightarrow> nat" where
  "digit_val c = length (takeWhile (\<lambda>d. d \<noteq> c) ''0123456789'')"

definition nat_of_digits :: "string \<Rightarrow> nat" where
  "nat_of_digits s = foldl (\<lambda>n c. 10 * n + digit_val c) 0 s"

definition year_field :: "string \<Rightarrow> bool" where
  "year_field s = (length s = 4 \<and> all_digits s)"

definition month_field :: "string \<Rightarrow> bool" where
  "month_field s =
     (all_digits s \<and> (length s = 1 \<or> length s = 2) \<and>
      1 \<le> nat_of_digits s \<and> nat_of_digits s \<le> 12)"

definition day_digits :: "string \<Rightarrow> string" where
  "day_digits s = (case s of c # cs \<Rightarrow> if c = CHR '' '' then cs else s | [] \<Rightarrow> s)"

definition day_field :: "string \<Rightarrow> bool" where
  "day_field s =
     (all_digits (day_digits s) \<and> (length s = 1 \<or> length s = 2) \<and>
      1 \<le> nat_of_digits (day_digits s) \<and> nat_of_digits (day_digits s) \<le> 31)"

definition is_leap :: "nat \<Rightarrow> bool" where
  "is_leap y = (y mod 4 = 0 \<and> (y mod 400 = 0 \<or> y mod 100 \<noteq> 0))"

definition days_in_month :: "nat \<Rightarrow> nat \<Rightarrow> nat" where
  "days_in_month y m =
     (if m = 2 then (if is_leap y then 29 else 28)
      else if m = 4 \<or> m = 6 \<or> m = 9 \<or> m = 11 then 30 else 31)"

definition strptime_ymd :: "string \<Rightarrow> (nat \<times> nat \<times> nat) option" where
  "strptime_ymd s =
     (case split_dash s of
        [y, m, d] \<Rightarrow>
          if year_field y \<and> month_field m \<and> day_field d then
            (let yy = nat_of_digits y; mm = nat_of_digits m; dd = nat_of_digits (day_digits d)
             in if 1 \<le> yy \<and> dd \<le> days_in_month yy mm then Some (yy, mm, dd) else None)
          else None
      | _ \<Rightarrow> None)"

definition validate_date :: "string \<Rightarrow> bool" where
  "validate_date s = (strptime_ymd s \<noteq> None)"

subsection \<open>GymManagementSystem.save_member and update_member\<close>

text \<open>
  The member form: the nine entries after \<^verbatim>\<open>strip()\<close>, the two comboboxes, the treadmill
  checkbox and the photo chosen. \<open>base_fee_float\<close> is \<^verbatim>\<open>float(data['base_fee'])\<close>, \<open>None\<close>
  when \<^verbatim>\<open>float\<close> raises \<^verbatim>\<open>ValueError\<close>. \<open>photo_ext\<close> is
  \<^verbatim>\<open>os.path.splitext(self.photo_path)[1].lower()\<close> when a photo is chosen; copying the photo
  file is taken to succeed.
\<close>

record member_form =
  f_user_id :: string
  f_name :: string
  f_contact :: string
  f_cnic :: string
  f_location :: string
  f_designation :: string
  f_join_date :: string
  f_expiry_date :: string
  f_base_fee :: string
  base_fee_float :: "real option"
  sport_var :: string
  membership_var :: string
  treadmill_var :: bool
  photo_ext :: "string option"

text \<open>
  The checks that \<^verbatim>\<open>save_member\<close> and \<^verbatim>\<open>update_member\<close> both make, in their order; the
  result on success is the base fee.
\<close>

definition validate_form :: "member_form \<Rightarrow> error + real" where
  "validate_form f =
     (if f_user_id f = [] \<or> f_name f = [] \<or> f_contact f = [] \<or> f_cnic f = [] \<or>
         f_join_date f = [] \<or> f_base_fee f = [] \<or> f_expiry_date f = []
        then Inl (ValidationError ''required'')
      else if \<not> validate_user_id (f_user_id f) then Inl (ValidationError ''user_id'')
      else if \<not> validate_cnic (f_cnic f) then Inl (ValidationError ''cnic'')
      else if \<not> validate_contact (f_contact f) then Inl (ValidationError ''contact'')
      else if \<not> (validate_date (f_join_date f) \<and> validate_date (f_expiry_date f))
        then Inl (ValidationError ''date'')
      else if sport_var f = [] then Inl (ValidationError ''sport_category'')
      else if membership_var f = [] then Inl (ValidationError ''membership_type'')
      else (case base_fee_float f of
              None \<Rightarrow> Inl (ValidationError ''base_fee'')
            | Some b \<Rightarrow> if b \<le> 0 then Inl (ValidationError ''base_fee'') else Inr b))"

definition photo_allowed :: "member_form \<Rightarrow> bool" where
  "photo_allowed f =
     (case photo_ext f of None \<Rightarrow> True | Some ext \<Rightarrow> ext = ''.jpg'' \<or> ext = ''.png'')"

definition new_photo_path :: "member_form \<Rightarrow> string option" where
  "new_photo_path f =
     (case photo_ext f of None \<Rightarrow> None
      | Some ext \<Rightarrow> Some (''photos/member_'' @ f_user_id f @ ext))"

text \<open>Python's \<^verbatim>\<open>x or None\<close> on a string.\<close>

definition or_none :: "string \<Rightarrow> string option" where
  "or_none s = (if s = [] then None else Some s)"

text \<open>
  The row both statements write. \<^verbatim>\<open>total_fee = base_fee + (400 if self.treadmill_var.get() else 0)\<close>.
\<close>

definition form_row :: "string \<Rightarrow> member_form \<Rightarrow> real \<Rightarrow> string option \<Rightarrow> member" where
  "form_row now f b photo =
     \<lparr>user_id = f_user_id f, name = f_name f, contact = f_contact f, cnic = f_cnic f,
      location = or_none (f_location f), designation = or_none (f_designation f),
      join_date = f_join_date f, expiry_date = f_expiry_date f,
      sport_category = sport_var f, membership_type = membership_var f,
      has_treadmill = treadmill_var f, base_fee = b,
      total_fee = b + (if treadmill_var f then 400 else 0),
      is_active = True, updated_at = now, photo_path = photo\<rparr>"

text \<open>
  \<^verbatim>\<open>INSERT INTO members\<close>: \<^verbatim>\<open>user_id\<close> is the primary key, \<^verbatim>\<open>cnic\<close> is \<^verbatim>\<open>UNIQUE\<close>, and the
  membership type has its \<^verbatim>\<open>CHECK\<close>. \<open>None\<close> is \<^verbatim>\<open>sqlite3.IntegrityError\<close>.
\<close>

definition insert_member :: "member \<Rightarrow> db \<Rightarrow> db option" where
  "insert_member r d =
     (if list_ex (\<lambda>q. user_id q = user_id r \<or> cnic q = cnic r) (members d) then None
      else if \<not> membership_check (membership_type r) then None
      else Some (d\<lparr>members := members d @ [r]\<rparr>))"

definition save_member :: "string \<Rightarrow> member_form \<Rightarrow> app \<Rightarrow> (error + unit) \<times> app" where
  "save_member now f st =
     (case validate_form f of
        Inl e \<Rightarrow> (Inl e, st)
      | Inr b \<Rightarrow>
         if \<not> photo_allowed f then (Inl (ValidationError ''photo''), st)
         else (case insert_member (form_row now f b (new_photo_path f)) (conn st) of
                 None \<Rightarrow> (Inl DuplicateKeyError, st)
               | Some d \<Rightarrow> (Inr (), commit (st\<lparr>conn := d\<rparr>))))"

text \<open>
  \<^verbatim>\<open>UPDATE members SET user_id=?, ... WHERE user_id=? AND is_active=1\<close>. The statement
  rewrites the active row of the old key; it fails when the new key or the new CNIC is
  held by another row, or on the \<^verbatim>\<open>CHECK\<close>. With no active row of the old key it
  rewrites nothing and succeeds.
\<close>

definition update_member_row ::
  "string \<Rightarrow> string \<Rightarrow> member_form \<Rightarrow> real \<Rightarrow> string option \<Rightarrow> db \<Rightarrow> db option" where
  "update_member_row now old f b photo d =
     (let hit = (\<lambda>r. user_id r = old \<and> is_active r);
          others = filter (\<lambda>r. \<not> hit r) (members d)
      in if list_ex hit (members d) \<and>
            list_ex (\<lambda>q. user_id q = f_user_id f \<or> cnic q = f_cnic f) others then None
         else if list_ex hit (members d) \<and> \<not> membership_check (membership_var f) then None
         else Some (d\<lparr>members :=
                map (\<lambda>r. if hit r then form_row now f b photo else r) (members d)\<rparr>))"

text \<open>
  \<open>selected\<close> is the user id in the row selected in the member list, \<open>None\<close> when no
  row is selected. The old photo path is read with \<^verbatim>\<open>fetchone()[0]\<close>, which raises when
  no row has the old key; \<^verbatim>\<open>except Exception\<close> reports it.
\<close>

definition update_member ::
  "string \<Rightarrow> string option \<Rightarrow> member_form \<Rightarrow> app \<Rightarrow> (error + unit) \<times> app" where
  "update_member now selected f st =
     (case selected of
        None \<Rightarrow> (Inl NoSelection, st)
      | Some old_user_id \<Rightarrow>
         (case validate_form f of
            Inl e \<Rightarrow> (Inl e, st)
          | Inr b \<Rightarrow>
             (case find (\<lambda>r. user_id r = old_user_id) (members (conn st)) of
                None \<Rightarrow> (Inl Failure, st)
              | Some old \<Rightarrow>
                 if \<not> photo_allowed f then (Inl (ValidationError ''photo''), st)
                 else
                   (case update_member_row now old_user_id f b
                           (case photo_ext f of None \<Rightarrow> photo_path old
                            | Some ext \<Rightarrow> new_photo_path f) (conn st) of
                      None \<Rightarrow> (Inl DuplicateKeyError, st)
                    | Some d \<Rightarrow> (Inr (), commit (st\<lparr>conn := d\<rparr>))))))"

subsection \<open>GymManagementSystem.update_total_fees\<close>

text \<open>
  \<^verbatim>\<open>UPDATE members SET total_fee=?, updated_at=? WHERE user_id=?\<close>
\<close>

definition set_total_fee :: "real \<Rightarrow> string \<Rightarrow> string \<Rightarrow> db \<Rightarrow> db" where
  "set_total_fee fee now uid d =
     d\<lparr>members :=
         map (\<lambda>r. if user_id r = uid then r\<lparr>total_fee := fee, updated_at := now\<rparr> else r)
           (members d)\<rparr>"

text \<open>
  The pass run by \<^verbatim>\<open>__init__\<close>: the rows are fetched once, and for each fetched row whose
  \<open>total_fee\<close> is not \<^verbatim>\<open>base_fee + (400 if has_treadmill else 0)\<close> the statement above is
  run on the table as it then is; one commit at the end.
\<close>

definition reconcile_row :: "string \<Rightarrow> member \<Rightarrow> db \<Rightarrow> db" where
  "reconcile_row now m d =
     (let expected_fee = base_fee m + (if has_treadmill m then 400 else 0)
      in if total_fee m \<noteq> expected_fee then set_total_fee expected_fee now (user_id m) d else d)"

definition update_total_fees :: "string \<Rightarrow> app \<Rightarrow> app" where
  "update_total_fees now st =
     commit (st\<lparr>conn := fold (reconcile_row now) (members (conn st)) (conn st)\<rparr>)"

text \<open>The fee equation of the specification, for one row.\<close>

definition fee_ok :: "member \<Rightarrow> bool" where
  "fee_ok r = (total_fee r = base_fee r + (if has_treadmill r then 400 else 0))"

text \<open>What the reconciliation pass makes of one row.\<close>

definition fix_row :: "string \<Rightarrow> member \<Rightarrow> member" where
  "fix_row now r =
     (if fee_ok r then r
      else r\<lparr>total_fee := base_fee r + (if has_treadmill r then 400 else 0), updated_at := now\<rparr>)"

subsection \<open>GymManagementSystem.search_members\<close>

text \<open>
  The search of the member tab, labelled "User ID or CNIC". \<open>v\<close> is
  \<^verbatim>\<open>self.search_member_entry.get().strip()\<close>. When \<^verbatim>\<open>re.match(r'^\d+$', search_value)\<close>
  the query is \<^verbatim>\<open>WHERE user_id=? AND is_active=1\<close>, otherwise
  \<^verbatim>\<open>WHERE cnic=? AND is_active=1\<close>; the rows found are listed with the columns
  \<^verbatim>\<open>user_id, name, cnic, membership_type\<close>. An empty list is the message "No active
  member found".
\<close>

definition search_members :: "string \<Rightarrow> app \<Rightarrow> error + (string \<times> string \<times> string \<times> string) list" where
  "search_members v st =
     (if v = [] then Inl (ValidationError ''search'')
      else Inr (map (\<lambda>r. (user_id r, name r, cnic r, membership_type r))
             (if all_digits v
              then filter (\<lambda>r. user_id r = v \<and> is_active r) (members (conn st))
              else filter (\<lambda>r. cnic r = v \<and> is_active r) (members (conn st)))))"

subsection \<open>GymManagementSystem.generate_payment_report\<close>

text \<open>The eleven columns the query selects.\<close>

record payment_row =
  r_id :: nat
  r_user_id :: string
  r_name :: string
  r_cnic :: string
  r_contact :: string
  r_sport_category :: string
  r_membership_type :: string
  r_amount :: real
  r_payment_date :: string
  r_period :: "string option"
  r_has_treadmill :: bool

definition join_row :: "payment \<Rightarrow> member \<Rightarrow> payment_row" where
  "join_row p m =
     \<lparr>r_id = payment_id p, r_user_id = user_id m, r_name = name m, r_cnic = cnic m,
      r_contact = contact m, r_sport_category = sport_category m,
      r_membership_type = membership_type m, r_amount = amount p,
      r_payment_date = payment_date p, r_period = period p,
      r_has_treadmill = has_treadmill m\<rparr>"

text \<open>
  The condition appended to the query for the report type. \<open>sport\<close> is \<open>None\<close> unless
  the type is "Sport Category" (set by \<^verbatim>\<open>generate_report\<close>); compared with a \<^verbatim>\<open>NULL\<close>
  parameter no row matches.
\<close>

definition kind_filter :: "string \<Rightarrow> string option \<Rightarrow> member \<Rightarrow> bool" where
  "kind_filter report_type sport m =
     (if report_type = ''30-Day Plan'' then membership_type m = ''30-day''
      else if report_type = ''15-Day Plan'' then membership_type m = ''15-day''
      else if report_type = ''Sport Category'' \<and> sport \<noteq> Some ''All''
        then (case sport of None \<Rightarrow> False | Some sp \<Rightarrow> sport_category m = sp)
      else True)"

text \<open>
  \<^verbatim>\<open>FROM payments p JOIN members m ON p.user_id = m.user_id WHERE p.month = ?\<close> and the
  condition of the report type: for each payment of the month, every member row of its
  user id that passes the condition. SQLite reads the payments through the index of their
  \<^verbatim>\<open>UNIQUE\<close> constraint, so the rows come ordered by user id and period; the list here is in
  the order of the ledger, and nothing below depends on the order.
\<close>

definition payment_report_rows :: "string \<Rightarrow> string \<Rightarrow> string option \<Rightarrow> db \<Rightarrow> payment_row list" where
  "payment_report_rows report_type mo sport d =
     concat (map (\<lambda>p. map (join_row p)
                          (filter (\<lambda>m. user_id m = p_user_id p \<and> kind_filter report_type sport m)
                             (members d)))
                 (filter (\<lambda>p. month p = mo) (payments d)))"

text \<open>
  The report: \<open>None\<close> is the "No payments found" message, which shows no summary.
  Otherwise the rows with the three numbers of the summary line: \<^verbatim>\<open>total_revenue\<close>,
  \<^verbatim>\<open>len(data)\<close> and \<^verbatim>\<open>member_count = len(set(row[1] for row in data))\<close>. The line prints
  the revenue with two decimals; the number before printing is modelled.
\<close>

definition generate_payment_report ::
  "string \<Rightarrow> string \<Rightarrow> string option \<Rightarrow> app \<Rightarrow> (payment_row list \<times> real \<times> nat \<times> nat) option" where
  "generate_payment_report report_type mo sport st =
     (let data = payment_report_rows report_type mo sport (conn st)
      in if data = [] then None
         else Some (data, sum_list (map r_amount data), length data,
                    length (remdups (map r_user_id data))))"

text \<open>
  The specification's reading of the report, written without the program's definitions.
  The member of a payment is the row of its user id. For a condition \<open>P\<close> on members,
  the matching payments are the payments of the month whose member satisfies \<open>P\<close>; the
  row of a payment carries the payment's id, user id, amount, date and period and its
  member's name, CNIC, contact, sport, plan and treadmill flag. \<open>report_of P mo d res\<close>
  says that \<open>res\<close> is the report for \<open>P\<close>: no report when no payment matches, and
  otherwise one row per matching payment (as a multiset: the order is the query
  planner's), a revenue that is the sum of the amounts, the number of payments, and the
  number of distinct user ids.
\<close>

definition payment_member :: "member list \<Rightarrow> payment \<Rightarrow> member option" where
  "payment_member ms p = find (\<lambda>m. user_id m = p_user_id p) ms"

definition matching_payments :: "(member \<Rightarrow> bool) \<Rightarrow> string \<Rightarrow> db \<Rightarrow> payment list" where
  "matching_payments P mo d =
     filter (\<lambda>p. month p = mo \<and>
                 (case payment_member (members d) p of None \<Rightarrow> False | Some m \<Rightarrow> P m))
       (payments d)"

definition ledger_row :: "member list \<Rightarrow> payment \<Rightarrow> payment_row" where
  "ledger_row ms p =
     (let m = the (payment_member ms p)
      in \<lparr>r_id = payment_id p, r_user_id = p_user_id p, r_name = name m, r_cnic = cnic m,
          r_contact = contact m, r_sport_category = sport_category m,
          r_membership_type = membership_type m, r_amount = amount p,
          r_payment_date = payment_date p, r_period = period p,
          r_has_treadmill = has_treadmill m\<rparr>)"

definition report_of ::
  "(member \<Rightarrow> bool) \<Rightarrow> string \<Rightarrow> db \<Rightarrow> (payment_row list \<times> real \<times> nat \<times> nat) option \<Rightarrow> bool" where
  "report_of P mo d res =
     (let ps = matching_payments P mo d
      in case res of
           None \<Rightarrow> ps = []
         | Some (rows, revenue, n, k) \<Rightarrow>
             ps \<noteq> [] \<and> mset rows = mset (map (ledger_row (members d)) ps) \<and>
             revenue = sum_list (map amount ps) \<and> revenue = sum_list (map r_amount rows) \<and>
             n = length ps \<and>
             k = card (set (map p_user_id ps)) \<and> k = card (set (map r_user_id rows)))"

subsection \<open>GymManagementSystem.generate_expired_report\<close>

text \<open>
  \<^verbatim>\<open>year, mon = map(int, month.split('-'))\<close>. \<open>py_int\<close> is \<^verbatim>\<open>int\<close> on texts of digits, as
  the report tab offers them (the months of the payments and \<^verbatim>\<open>"%Y-%m"\<close> stamps); signs,
  blanks and underscores, which \<^verbatim>\<open>int\<close> also reads, are not modelled. \<open>None\<close> stands for
  the \<^verbatim>\<open>ValueError\<close>.
\<close>

definition py_int :: "string \<Rightarrow> nat option" where
  "py_int s = (if s \<noteq> [] \<and> all_digits s then Some (nat_of_digits s) else None)"

text \<open>
  \<^verbatim>\<open>strftime("%Y-%m-%d")\<close>. Month and day are printed in two digits. The year is
  printed as the C library of the platform does; the GNU library, modelled here, prints
  it without padding, so a year under 1000 has fewer than four digits
  (\<^verbatim>\<open>999-06-01\<close>). From the year 1000 on all platforms agree.
\<close>

definition digit_char :: "nat \<Rightarrow> char" where
  "digit_char n = ''0123456789'' ! (n mod 10)"

definition pad2 :: "nat \<Rightarrow> string" where
  "pad2 n = [digit_char (n div 10), digit_char n]"

definition pad4 :: "nat \<Rightarrow> string" where
  "pad4 n = pad2 (n div 100) @ pad2 (n mod 100)"

definition year_text :: "nat \<Rightarrow> string" where
  "year_text y =
     (if y < 10 then [digit_char y]
      else if y < 100 then pad2 y
      else if y < 1000 then digit_char (y div 100) # pad2 (y mod 100)
      else pad4 y)"

definition strftime_ymd :: "nat \<Rightarrow> nat \<Rightarrow> nat \<Rightarrow> string" where
  "strftime_ymd y m d = year_text y @ ''-'' @ pad2 m @ ''-'' @ pad2 d"

text \<open>
  \<^verbatim>\<open>next_month = datetime(year, mon + 1, 1) if mon < 12 else datetime(year + 1, 1, 1)\<close>
  and \<^verbatim>\<open>end_date = next_month.strftime("%Y-%m-%d")\<close>. \<^verbatim>\<open>datetime\<close> raises \<^verbatim>\<open>ValueError\<close>
  for a year outside 1 to 9999.
\<close>

definition end_date :: "string \<Rightarrow> string option" where
  "end_date mo =
     (case map py_int (split_dash mo) of
        [Some year, Some mon] \<Rightarrow>
          if mon < 12
          then (if 1 \<le> year \<and> year \<le> 9999 then Some (strftime_ymd year (mon + 1) 1) else None)
          else (if year + 1 \<le> 9999 then Some (strftime_ymd (year + 1) 1 1) else None)
      | _ \<Rightarrow> None)"

text \<open>
  \<^verbatim>\<open>(SELECT MAX(payment_date) FROM payments p WHERE p.user_id = m.user_id)\<close>: the greatest
  text, \<^verbatim>\<open>NULL\<close> when the member has no payment.
\<close>

definition last_payment :: "string \<Rightarrow> payment list \<Rightarrow> string option" where
  "last_payment uid ps =
     (case map payment_date (filter (\<lambda>p. p_user_id p = uid) ps) of
        [] \<Rightarrow> None
      | x # xs \<Rightarrow> Some (fold max xs x))"

record expired_row =
  e_user_id :: string
  e_name :: string
  e_cnic :: string
  e_contact :: string
  e_sport_category :: string
  e_membership_type :: string
  e_expiry_date :: string
  e_last_payment :: "string option"

definition expired_row_of :: "payment list \<Rightarrow> member \<Rightarrow> expired_row" where
  "expired_row_of ps m =
     \<lparr>e_user_id = user_id m, e_name = name m, e_cnic = cnic m, e_contact = contact m,
      e_sport_category = sport_category m, e_membership_type = membership_type m,
      e_expiry_date = expiry_date m, e_last_payment = last_payment (user_id m) ps\<rparr>"

text \<open>
  \<^verbatim>\<open>WHERE m.expiry_date < ? AND m.is_active = 1\<close>: both sides are \<^verbatim>\<open>TEXT\<close>, compared
  byte by byte, which is the order of \<^typ>\<open>string\<close>. An empty list is the "No expired
  members found" message; the table shows \<^verbatim>\<open>'Never'\<close> for a \<^verbatim>\<open>NULL\<close> last payment.
\<close>

definition generate_expired_report :: "string \<Rightarrow> app \<Rightarrow> error + expired_row list" where
  "generate_expired_report mo st =
     (case end_date mo of
        None \<Rightarrow> Inl Failure
      | Some e \<Rightarrow>
          Inr (map (expired_row_of (payments (conn st)))
                 (filter (\<lambda>m. expiry_date m < e \<and> is_active m) (members (conn st)))))"

subsection \<open>Calendar reading of the expiry report\<close>

text \<open>
  The specification's side of the expiry report: dates as year, month and day in their
  calendar order, the first day of the month after a billing month, and a member expired
  before a date. \<open>iso_date\<close> is the text \<^verbatim>\<open>YYYY-MM-DD\<close> of a date, every field padded
  with zeros; a stored date is padded when it is that text of the date it parses to.
\<close>

definition iso_date :: "nat \<Rightarrow> nat \<Rightarrow> nat \<Rightarrow> string" where
  "iso_date y m d = pad4 y @ ''-'' @ pad2 m @ ''-'' @ pad2 d"

definition date_less :: "nat \<times> nat \<times> nat \<Rightarrow> nat \<times> nat \<times> nat \<Rightarrow> bool" where
  "date_less a b =
     (case a of (y, m, d) \<Rightarrow> case b of (y', m', d') \<Rightarrow>
        y < y' \<or> (y = y' \<and> (m < m' \<or> (m = m' \<and> d < d'))))"

definition next_month_first :: "nat \<Rightarrow> nat \<Rightarrow> nat \<times> nat \<times> nat" where
  "next_month_first y m = (if m < 12 then (y, m + 1, 1) else (y + 1, 1, 1))"

definition expired_before :: "nat \<times> nat \<times> nat \<Rightarrow> member \<Rightarrow> bool" where
  "expired_before dt r =
     (case strptime_ymd (expiry_date r) of None \<Rightarrow> False | Some e \<Rightarrow> date_less e dt)"

definition padded_date :: "string \<Rightarrow> bool" where
  "padded_date s =
     (case strptime_ymd s of None \<Rightarrow> False | Some (y, m, d) \<Rightarrow> s = iso_date y m d)"

subsection \<open>Example data\<close>

definition alice :: member where
  "alice = \<lparr>user_id = ''1001'', name = ''Alice'', contact = ''03001234567'',
     cnic = ''1234567890123'', location = None, designation = None,
     join_date = ''2024-06-01'', expiry_date = ''2024-07-01'', sport_category = ''Gym'',
     membership_type = ''30-day'', has_treadmill = True, base_fee = 2000, total_fee = 2400,
     is_active = True, updated_at = ''2024-06-01 09:00:00'', photo_path = None\<rparr>"

definition bilal :: member where
  "bilal = \<lparr>user_id = ''1002'', name = ''Bilal'', contact = ''03007654321'',
     cnic = ''3520212345678'', location = Some ''Lahore'', designation = None,
     join_date = ''2024-05-15'', expiry_date = ''2024-06-30'', sport_category = ''Squash'',
     membership_type = ''15-day'', has_treadmill = False, base_fee = 1500, total_fee = 1500,
     is_active = True, updated_at = ''2024-05-15 10:00:00'', photo_path = None\<rparr>"

definition db0 :: db where
  "db0 = \<lparr>members = [alice, bilal], payments = [], seq = 0\<rparr>"

definition app0 :: app where
  "app0 = \<lparr>conn = db0, committed = db0, current_member = None\<rparr>"

text \<open>
  A database in which Bilal's only payment for June is a \<^verbatim>\<open>second_half\<close> (a row the
  program itself never leaves without a \<^verbatim>\<open>first_half\<close>; an imported ledger can hold it),
  with Bilal bound.
\<close>

definition db_second_only :: db where
  "db_second_only = db0\<lparr>payments :=
      [\<lparr>payment_id = 1, p_user_id = ''1002'', amount = 1500, payment_date = ''2024-06-20'',
        month = ''2024-06'', period = Some ''second_half'',
        p_updated_at = ''2024-06-20 08:00:00''\<rparr>], seq := 1\<rparr>"

definition app_second_only :: app where
  "app_second_only =
     \<lparr>conn = db_second_only, committed = db_second_only, current_member = Some bilal\<rparr>"

text \<open>
  A run of the program from \<open>app0\<close>: Bilal pays both halves of June on the 15-day plan,
  then pays July on the 30-day plan, which moves him to that plan. At the end Bilal is
  searched for again, so that he is bound with his row as it now is.
\<close>

definition app_after_plan_change :: app where
  "app_after_plan_change =
     snd (search_member ''1002''
       (snd (pay ''2024-07-01 09:00:00'' ''2024-07-01'' ''1002'' 1500 ''2024-07'' ''30-day''
         (snd (pay ''2024-06-16 09:00:00'' ''2024-06-16'' ''1002'' 1500 ''2024-06'' ''15-day''
           (snd (pay ''2024-06-01 09:00:00'' ''2024-06-01'' ''1002'' 1500 ''2024-06'' ''15-day''
             app0)))))))"

text \<open>
  A run of the program from \<open>app0\<close>: Bilal pays the first half of June, Alice pays June,
  Bilal pays the second half.
\<close>

definition app_june :: app where
  "app_june =
     snd (pay ''2024-06-16 09:00:00'' ''2024-06-16'' ''1002'' 1500 ''2024-06'' ''15-day''
       (snd (pay ''2024-06-02 09:00:00'' ''2024-06-02'' ''1001'' 2400 ''2024-06'' ''30-day''
         (snd (pay ''2024-06-01 09:00:00'' ''2024-06-01'' ''1002'' 1500 ''2024-06'' ''15-day''
           app0)))))"

text \<open>
  A member form as the clerk may fill it in: the expiry date is typed without the leading
  zero of the month.
\<close>

definition carol_form :: member_form where
  "carol_form = \<lparr>f_user_id = ''1003'', f_name = ''Carol'', f_contact = ''03111222333'',
     f_cnic = ''4210112345671'', f_location = [], f_designation = ''Coach'',
     f_join_date = ''2024-06-01'', f_expiry_date = ''2024-6-15'', f_base_fee = ''1800'',
     base_fee_float = Some 1800, sport_var = ''Gym'', membership_var = ''30-day'',
     treadmill_var = False, photo_ext = None\<rparr>"

text \<open>An edit of Bilal's row: a new base fee, with the treadmill.\<close>

definition bilal_form :: member_form where
  "bilal_form = \<lparr>f_user_id = ''1002'', f_name = ''Bilal'', f_contact = ''03007654321'',
     f_cnic = ''3520212345678'', f_location = ''Lahore'', f_designation = [],
     f_join_date = ''2024-05-15'', f_expiry_date = ''2024-07-31'', f_base_fee = ''1700'',
     base_fee_float = Some 1700, sport_var = ''Squash'', membership_var = ''15-day'',
     treadmill_var = True, photo_ext = Some ''.png''\<rparr>"

text \<open>A database whose first row has a stale \<open>total_fee\<close>.\<close>

definition app_stale :: app where
  "app_stale =
     \<lparr>conn = db0\<lparr>members := [alice\<lparr>total_fee := 2000\<rparr>, bilal]\<rparr>,
      committed = db0\<lparr>members := [alice\<lparr>total_fee := 2000\<rparr>, bilal]\<rparr>,
      current_member = None\<rparr>"

text \<open>A member whose user id is the thirteen digits of Alice's CNIC.\<close>

definition dawood :: member where
  "dawood = \<lparr>user_id = ''1234567890123'', name = ''Dawood'', contact = ''03219876543'',
     cnic = ''6110198765432'', location = None, designation = None,
     join_date = ''2024-01-01'', expiry_date = ''2024-12-31'', sport_category = ''Gym'',
     membership_type = ''30-day'', has_treadmill = False, base_fee = 1000, total_fee = 1000,
     is_active = True, updated_at = ''2024-01-01 09:00:00'', photo_path = None\<rparr>"

definition app_clash :: app where
  "app_clash =
     \<lparr>conn = db0\<lparr>members := [dawood, alice, bilal]\<rparr>,
      committed = db0\<lparr>members := [dawood, alice, bilal]\<rparr>, current_member = None\<rparr>"

lemmas ledger_defs =
  record_payment_def search_member_def search_member_row_def pay_def change_plan_def
  allocate_period_def insert_and_commit_def insert_payment_def new_payment_def update_membership_type_def
  membership_check_def existing_periods_def unique_conflict_def commit_def
  month_format_def all_digits_def is_digit_def

lemmas example_defs =
  app0_def db0_def alice_def bilal_def db_second_only_def app_second_only_def
  app_after_plan_change_def carol_form_def bilal_form_def app_stale_def dawood_def app_clash_def
  app_june_def

lemmas validator_defs =
  validate_form_def validate_user_id_def validate_cnic_def validate_contact_def
  validate_date_def strptime_ymd_def year_field_def month_field_def day_field_def
  day_digits_def nat_of_digits_def digit_val_def is_leap_def days_in_month_def
  all_digits_def is_digit_def

lemmas lifecycle_defs =
  save_member_def update_member_def update_member_row_def insert_member_def form_row_def
  photo_allowed_def new_photo_path_def or_none_def membership_check_def commit_def
  update_total_fees_def reconcile_row_def set_total_fee_def

lemmas report_defs =
  generate_expired_report_def end_date_def py_int_def strftime_ymd_def year_text_def pad2_def
  pad4_def
  digit_char_def expired_row_of_def last_payment_def generate_payment_report_def
  payment_report_rows_def kind_filter_def join_row_def

section \<open>Properties of record_payment\<close>

lemma insert_payment_free:
  assumes "per = None \<or> per \<notin> set (existing_periods uid mo (payments d))"
  shows "insert_payment now today uid amt mo per d =
     Some (d\<lparr>payments := payments d @ [new_payment now today uid amt mo per d],
              seq := Suc (seq d)\<rparr>)"
  using assms
  by (auto simp: insert_payment_def new_payment_def existing_periods_def unique_conflict_def
      list_ex_iff Let_def)

lemma change_plan_same: "membership_type cm = mt \<Longrightarrow> change_plan mt now cm st = Some st"
  by (simp add: change_plan_def)

lemma change_plan_keeps:
  "change_plan mt now cm st = Some st1 \<Longrightarrow>
     payments (conn st1) = payments (conn st) \<and> seq (conn st1) = seq (conn st) \<and>
     committed st1 = committed st \<and> current_member st1 = current_member st"
  by (auto simp: change_plan_def update_membership_type_def split: if_splits option.splits)

lemma change_plan_15: "change_plan ''15-day'' now cm st \<noteq> None"
  by (auto simp: change_plan_def update_membership_type_def membership_check_def
      split: if_splits option.splits)

lemma change_plan_frame:
  "change_plan mt now cm st = Some st1 \<Longrightarrow>
     map frame (members (conn st1)) = map frame (members (conn st))"
  by (auto simp: change_plan_def update_membership_type_def frame_def split: if_splits)

lemma insert_and_commit_members:
  "members (conn (snd (insert_and_commit now today uid amt mo per st))) = members (conn st)"
  by (simp add: insert_and_commit_def insert_payment_def commit_def Let_def split: option.splits)

lemma insert_and_commit_free:
  assumes "per = None \<or> per \<notin> set (existing_periods uid mo (payments (conn st)))"
  shows "insert_and_commit now today uid amt mo per st =
     (Inr per, \<lparr>conn = (conn st)\<lparr>payments := payments (conn st) @
                   [new_payment now today uid amt mo per (conn st)], seq := Suc (seq (conn st))\<rparr>,
               committed = (conn st)\<lparr>payments := payments (conn st) @
                   [new_payment now today uid amt mo per (conn st)], seq := Suc (seq (conn st))\<rparr>,
               current_member = None\<rparr>)"
  using insert_payment_free [OF assms]
  by (simp add: insert_and_commit_def commit_def)

lemma find_as_filter: "find P xs = (case filter P xs of [] \<Rightarrow> None | x # _ \<Rightarrow> Some x)"
  by (induction xs) auto

text \<open>A search value that matches one active row only finds that row.\<close>

lemma search_member_row_unique:
  assumes "filter (\<lambda>r. (user_id r = v \<or> cnic r = v) \<and> is_active r) ms = [m]"
  shows "search_member_row v ms = Some m"
proof (cases "find (\<lambda>r. user_id r = v \<and> is_active r) ms")
  case None
  then have "filter (\<lambda>r. user_id r = v \<and> is_active r) ms = []"
    by (simp add: find_as_filter split: list.splits)
  then have "\<forall>r \<in> set ms. \<not> (user_id r = v \<and> is_active r)"
    by (simp add: filter_empty_conv)
  then have "filter (\<lambda>r. cnic r = v \<and> is_active r) ms =
      filter (\<lambda>r. (user_id r = v \<or> cnic r = v) \<and> is_active r) ms"
    by (intro filter_cong) auto
  with assms have "find (\<lambda>r. cnic r = v \<and> is_active r) ms = Some m"
    by (simp add: find_as_filter)
  with None show ?thesis by (simp add: search_member_row_def)
next
  case (Some m')
  then have "m' \<in> set ms" "user_id m' = v" "is_active m'"
    by (auto simp: find_Some_iff)
  then have "m' \<in> set (filter (\<lambda>r. (user_id r = v \<or> cnic r = v) \<and> is_active r) ms)"
    by simp
  with assms have "m' = m" by simp
  with Some show ?thesis by (simp add: search_member_row_def)
qed

lemma pay_15_step:
  assumes "v \<noteq> []"
    and "search_member_row v (members (conn st)) = Some m"
    and "membership_type m = ''15-day''" and "0 < total_fee m" and "month_format mo"
  shows "pay now today v (total_fee m) mo ''15-day'' st =
     (case allocate_period ''15-day'' (user_id m) mo (conn st) of
        Inl e \<Rightarrow> (Inl e, st\<lparr>current_member := Some m\<rparr>)
      | Inr per \<Rightarrow> insert_and_commit now today (user_id m) (total_fee m) mo per
                    (st\<lparr>current_member := Some m\<rparr>))"
  using assms
  by (simp add: pay_def search_member_def record_payment_def change_plan_def)

lemma month_format_june: "month_format ''2024-06''"
  by (simp add: month_format_def all_digits_def is_digit_def)

text \<open>
  C5. With a member bound, a positive amount that differs from the bound member's
  \<open>total_fee\<close>, a month of the form \<^verbatim>\<open>YYYY-MM\<close> and a non-empty membership type,
  \<open>record_payment\<close> reports the amount mismatch and changes nothing: no payment row is
  inserted, in the connection or in the committed database.
\<close>

theorem amount_mismatch_rejected:
  assumes "current_member st = Some cm"
    and "0 < amt" and "amt \<noteq> total_fee cm"
    and "month_format mo" and "mt \<noteq> []"
  shows "record_payment now today (Some amt) mo mt st = (Inl AmountMismatchError, st)"
  using assms by (simp add: record_payment_def)

theorem amount_mismatch_rejected_witness:
  "record_payment ''2024-06-03 12:00:00'' ''2024-06-03'' (Some 2000) ''2024-06'' ''30-day''
     (app0\<lparr>current_member := Some alice\<rparr>) =
   (Inl AmountMismatchError, app0\<lparr>current_member := Some alice\<rparr>)"
proof -
  have "current_member (app0\<lparr>current_member := Some alice\<rparr>) = Some alice" by simp
  moreover have "(0::real) < 2000" by simp
  moreover have "(2000::real) \<noteq> total_fee alice" by (simp add: alice_def)
  moreover have "month_format ''2024-06''" by (rule month_format_june)
  moreover have "''30-day'' \<noteq> []" by simp
  ultimately show ?thesis by (rule amount_mismatch_rejected)
qed

text \<open>
  C10. A member is bound, the plan chosen is \<^verbatim>\<open>15-day\<close> (the bound member's plan or a plan
  change made by this call), the amount is the member's positive \<open>total_fee\<close> and the month
  is well formed. If the payments of that member and month hold \<^verbatim>\<open>second_half\<close> and no
  \<^verbatim>\<open>first_half\<close>, the call succeeds with period \<^verbatim>\<open>first_half\<close> and appends that payment:
  only the absence of \<^verbatim>\<open>first_half\<close> is tested first.
\<close>

theorem second_half_only_gets_first_half:
  assumes "current_member st = Some cm"
    and "0 < total_fee cm" and "month_format mo"
    and "Some ''second_half'' \<in> set (existing_periods (user_id cm) mo (payments (conn st)))"
    and "Some ''first_half'' \<notin> set (existing_periods (user_id cm) mo (payments (conn st)))"
  shows "fst (record_payment now today (Some (total_fee cm)) mo ''15-day'' st) =
           Inr (Some ''first_half'')
    \<and> payments (conn (snd (record_payment now today (Some (total_fee cm)) mo ''15-day'' st))) =
        payments (conn st) @
          [new_payment now today (user_id cm) (total_fee cm) mo (Some ''first_half'') (conn st)]"
proof -
  obtain st1 where st1: "change_plan ''15-day'' now cm st = Some st1"
    using change_plan_15 by blast
  note eqs = change_plan_keeps [OF st1]
  have alloc: "allocate_period ''15-day'' (user_id cm) mo (conn st1) = Inr (Some ''first_half'')"
    using assms(5) eqs by (simp add: allocate_period_def)
  have ins: "insert_payment now today (user_id cm) (total_fee cm) mo (Some ''first_half'') (conn st1) =
      Some ((conn st1)\<lparr>payments := payments (conn st1) @
        [new_payment now today (user_id cm) (total_fee cm) mo (Some ''first_half'') (conn st1)],
        seq := Suc (seq (conn st1))\<rparr>)"
    using assms(5) eqs by (intro insert_payment_free) simp
  have np: "new_payment now today (user_id cm) (total_fee cm) mo (Some ''first_half'') (conn st1) =
      new_payment now today (user_id cm) (total_fee cm) mo (Some ''first_half'') (conn st)"
    using eqs by (simp add: new_payment_def)
  show ?thesis
    using assms(1-3) st1 alloc ins np eqs
    by (simp add: record_payment_def insert_and_commit_def commit_def)
qed

theorem second_half_only_gets_first_half_witness:
  "fst (record_payment ''2024-06-25 10:00:00'' ''2024-06-25'' (Some (total_fee bilal)) ''2024-06''
          ''15-day'' app_second_only) = Inr (Some ''first_half'')
   \<and> payments (conn (snd (record_payment ''2024-06-25 10:00:00'' ''2024-06-25''
          (Some (total_fee bilal)) ''2024-06'' ''15-day'' app_second_only))) =
       payments (conn app_second_only) @
         [new_payment ''2024-06-25 10:00:00'' ''2024-06-25'' (user_id bilal) (total_fee bilal)
            ''2024-06'' (Some ''first_half'') (conn app_second_only)]"
proof -
  have 1: "current_member app_second_only = Some bilal"
    by (simp add: app_second_only_def)
  have 2: "0 < total_fee bilal" by (simp add: bilal_def)
  have ex: "existing_periods (user_id bilal) ''2024-06'' (payments (conn app_second_only)) =
      [Some ''second_half'']"
    by (simp add: existing_periods_def app_second_only_def db_second_only_def db0_def bilal_def)
  have 4: "Some ''second_half'' \<in>
      set (existing_periods (user_id bilal) ''2024-06'' (payments (conn app_second_only)))"
    by (simp add: ex)
  have 5: "Some ''first_half'' \<notin>
      set (existing_periods (user_id bilal) ''2024-06'' (payments (conn app_second_only)))"
    by (simp add: ex)
  show ?thesis
    by (rule second_half_only_gets_first_half [OF 1 2 month_format_june 4 5])
qed

text \<open>
  C8. Whatever its inputs and whether it succeeds or fails, \<open>record_payment\<close> leaves the
  member table with the same rows in the same order, equal in every column but
  \<open>membership_type\<close> and \<open>updated_at\<close>; in particular every \<open>expiry_date\<close> is what it
  was.
\<close>

theorem record_payment_frame:
  "map frame (members (conn (snd (record_payment now today amount_entry mo mt st)))) =
     map frame (members (conn st))
   \<and> map expiry_date (members (conn (snd (record_payment now today amount_entry mo mt st)))) =
     map expiry_date (members (conn st))"
proof -
  let ?st' = "snd (record_payment now today amount_entry mo mt st)"
  have fr: "map frame (members (conn ?st')) = map frame (members (conn st))"
  proof (cases "current_member st")
    case None
    then show ?thesis by (simp add: record_payment_def)
  next
    case (Some cm)
    show ?thesis
    proof (cases "change_plan mt now cm st")
      case None
      with Some show ?thesis
        by (simp add: record_payment_def split: option.splits)
    next
      case st1: (Some st1)
      have "map frame (members (conn st1)) = map frame (members (conn st))"
        using st1 by (rule change_plan_frame)
      with Some st1 show ?thesis
        by (simp add: record_payment_def insert_and_commit_members
            split: option.splits sum.splits)
    qed
  qed
  have "map expiry_date (map frame (members (conn ?st'))) =
      map expiry_date (map frame (members (conn st)))"
    by (simp only: fr)
  then have "map expiry_date (members (conn ?st')) = map expiry_date (members (conn st))"
    by (simp add: frame_def comp_def)
  with fr show ?thesis by simp
qed

theorem record_payment_frame_witness:
  "map expiry_date (members (conn (snd (record_payment ''2024-07-02 09:00:00'' ''2024-07-02''
      (Some 1500) ''2024-08'' ''15-day'' app_after_plan_change)))) = [''2024-07-01'', ''2024-06-30'']
   \<and> map membership_type (members (conn (snd (record_payment ''2024-07-02 09:00:00''
      ''2024-07-02'' (Some 1500) ''2024-08'' ''15-day'' app_after_plan_change)))) =
      [''30-day'', ''15-day'']"
proof -
  have "map expiry_date (members (conn app_after_plan_change)) = [''2024-07-01'', ''2024-06-30'']"
    by (simp add: example_defs ledger_defs)
  moreover have "map membership_type (members (conn (snd (record_payment ''2024-07-02 09:00:00''
      ''2024-07-02'' (Some 1500) ''2024-08'' ''15-day'' app_after_plan_change)))) =
      [''30-day'', ''15-day'']"
    by (simp add: example_defs ledger_defs)
  ultimately show ?thesis
    using record_payment_frame [of "''2024-07-02 09:00:00''" "''2024-07-02''" "Some 1500"
        "''2024-08''" "''15-day''" app_after_plan_change]
    by simp
qed

text \<open>
  C3. A search value matches one active member only (by user id or by CNIC), whose plan
  is \<^verbatim>\<open>15-day\<close>, with a positive
  \<open>total_fee\<close>; the month is well formed and has no payment of that member. Three
  payments of the fee for that month on the \<^verbatim>\<open>15-day\<close> plan, the member bound anew before
  each, give \<^verbatim>\<open>first_half\<close>, then \<^verbatim>\<open>second_half\<close>, then the period-exhausted failure;
  the ledger gains exactly those two rows, in that order.
\<close>

theorem three_half_month_payments:
  assumes "v \<noteq> []"
    and "filter (\<lambda>r. (user_id r = v \<or> cnic r = v) \<and> is_active r) (members (conn st)) = [m]"
    and "membership_type m = ''15-day''" and "0 < total_fee m" and "month_format mo"
    and "existing_periods (user_id m) mo (payments (conn st)) = []"
  shows "let r1 = pay n1 t1 v (total_fee m) mo ''15-day'' st;
             r2 = pay n2 t2 v (total_fee m) mo ''15-day'' (snd r1);
             r3 = pay n3 t3 v (total_fee m) mo ''15-day'' (snd r2)
         in fst r1 = Inr (Some ''first_half'') \<and> fst r2 = Inr (Some ''second_half'') \<and>
            fst r3 = Inl PeriodExhaustedError \<and>
            map period (payments (conn (snd r3))) =
              map period (payments (conn st)) @ [Some ''first_half'', Some ''second_half'']"
proof -
  let ?P = "\<lambda>r. (user_id r = v \<or> cnic r = v) \<and> is_active r"
  have f0: "search_member_row v (members (conn st)) = Some m"
    using assms(2) by (rule search_member_row_unique)
  define p1 where
    "p1 = new_payment n1 t1 (user_id m) (total_fee m) mo (Some ''first_half'') (conn st)"
  define d1 where
    "d1 = (conn st)\<lparr>payments := payments (conn st) @ [p1], seq := Suc (seq (conn st))\<rparr>"
  define s1 where "s1 = \<lparr>conn = d1, committed = d1, current_member = None\<rparr>"
  define p2 where
    "p2 = new_payment n2 t2 (user_id m) (total_fee m) mo (Some ''second_half'') d1"
  define d2 where "d2 = d1\<lparr>payments := payments d1 @ [p2], seq := Suc (seq d1)\<rparr>"
  define s2 where "s2 = \<lparr>conn = d2, committed = d2, current_member = None\<rparr>"
  have a1: "allocate_period ''15-day'' (user_id m) mo (conn st) = Inr (Some ''first_half'')"
    using assms(6) by (simp add: allocate_period_def)
  have r1: "pay n1 t1 v (total_fee m) mo ''15-day'' st = (Inr (Some ''first_half''), s1)"
    using assms(6)
    by (simp add: pay_15_step [OF assms(1) f0 assms(3-5)] a1 insert_and_commit_free s1_def
        d1_def p1_def)
  have "filter ?P (members (conn s1)) = [m]"
    using assms(2) by (simp add: s1_def d1_def)
  then have f1: "search_member_row v (members (conn s1)) = Some m"
    by (rule search_member_row_unique)
  have e1: "existing_periods (user_id m) mo (payments (conn s1)) = [Some ''first_half'']"
    using assms(6) by (simp add: existing_periods_def s1_def d1_def p1_def new_payment_def)
  have a2: "allocate_period ''15-day'' (user_id m) mo (conn s1) = Inr (Some ''second_half'')"
    using e1 by (simp add: allocate_period_def)
  have c1: "conn (s1\<lparr>current_member := Some m\<rparr>) = d1"
    by (simp add: s1_def)
  have "insert_and_commit n2 t2 (user_id m) (total_fee m) mo (Some ''second_half'')
          (s1\<lparr>current_member := Some m\<rparr>) = (Inr (Some ''second_half''), s2)"
    using e1 by (subst insert_and_commit_free) (simp_all add: c1 s1_def s2_def d2_def p2_def)
  then have r2: "pay n2 t2 v (total_fee m) mo ''15-day'' s1 = (Inr (Some ''second_half''), s2)"
    by (simp add: pay_15_step [OF assms(1) f1 assms(3-5)] a2)
  have "filter ?P (members (conn s2)) = [m]"
    using assms(2) by (simp add: s2_def d2_def d1_def)
  then have f2: "search_member_row v (members (conn s2)) = Some m"
    by (rule search_member_row_unique)
  have e2: "existing_periods (user_id m) mo (payments (conn s2)) =
      [Some ''first_half'', Some ''second_half'']"
    using e1 by (simp add: existing_periods_def s2_def d2_def p2_def new_payment_def s1_def)
  have a3: "allocate_period ''15-day'' (user_id m) mo (conn s2) = Inl PeriodExhaustedError"
    using e2 by (simp add: allocate_period_def)
  have r3: "pay n3 t3 v (total_fee m) mo ''15-day'' s2 =
      (Inl PeriodExhaustedError, s2\<lparr>current_member := Some m\<rparr>)"
    by (simp add: pay_15_step [OF assms(1) f2 assms(3-5)] a3)
  have "map period (payments (conn s2)) =
      map period (payments (conn st)) @ [Some ''first_half'', Some ''second_half'']"
    by (simp add: s2_def d2_def d1_def p1_def p2_def new_payment_def)
  then show ?thesis
    by (simp add: r1 r2 r3 Let_def)
qed

theorem three_half_month_payments_witness:
  "let r1 = pay ''2024-06-01 09:00:00'' ''2024-06-01'' ''1002'' (total_fee bilal) ''2024-06''
              ''15-day'' app0;
       r2 = pay ''2024-06-16 09:00:00'' ''2024-06-16'' ''1002'' (total_fee bilal) ''2024-06''
              ''15-day'' (snd r1);
       r3 = pay ''2024-06-28 09:00:00'' ''2024-06-28'' ''1002'' (total_fee bilal) ''2024-06''
              ''15-day'' (snd r2)
   in fst r1 = Inr (Some ''first_half'') \<and> fst r2 = Inr (Some ''second_half'') \<and>
      fst r3 = Inl PeriodExhaustedError \<and>
      map period (payments (conn (snd r3))) =
        map period (payments (conn app0)) @ [Some ''first_half'', Some ''second_half'']"
proof -
  have 1: "''1002'' \<noteq> []" by simp
  have 2: "filter (\<lambda>r. (user_id r = ''1002'' \<or> cnic r = ''1002'') \<and> is_active r)
      (members (conn app0)) = [bilal]"
    by (simp add: app0_def db0_def alice_def bilal_def)
  have 3: "membership_type bilal = ''15-day''" by (simp add: bilal_def)
  have 4: "0 < total_fee bilal" by (simp add: bilal_def)
  have 6: "existing_periods (user_id bilal) ''2024-06'' (payments (conn app0)) = []"
    by (simp add: existing_periods_def app0_def db0_def)
  show ?thesis
    by (rule three_half_month_payments [OF 1 2 3 4 month_format_june 6])
qed

text \<open>
  A payment on the 30-day plan by a member of that plan, with the fee and a well-formed
  month, succeeds with period \<^verbatim>\<open>NULL\<close> whatever the ledger already holds, and appends
  its row.
\<close>

lemma pay_30_always_succeeds:
  assumes "v \<noteq> []"
    and "search_member_row v (members (conn st)) = Some m"
    and "membership_type m = ''30-day''" and "0 < total_fee m" and "month_format mo"
  shows "fst (pay now today v (total_fee m) mo ''30-day'' st) = Inr None"
    and "payments (conn (snd (pay now today v (total_fee m) mo ''30-day'' st))) =
      payments (conn st) @ [new_payment now today (user_id m) (total_fee m) mo None (conn st)]"
    and "members (conn (snd (pay now today v (total_fee m) mo ''30-day'' st))) =
      members (conn st)"
  using assms
  by (simp_all add: pay_def search_member_def record_payment_def change_plan_def
      allocate_period_def insert_and_commit_free)

text \<open>
  C1 (the program departs from the claim). Alice is on the 30-day plan with a fee of 2400.
  Two payments for June 2024, Alice bound anew before each, both succeed with period
  \<^verbatim>\<open>NULL\<close>, and the committed ledger holds two rows for the same member and month: the
  \<^verbatim>\<open>UNIQUE(user_id, month, period)\<close> constraint never fires on a \<^verbatim>\<open>NULL\<close> period. A second
  \<open>record_payment\<close> without a new search fails, but for want of a bound member, not as a
  duplicate.
\<close>

theorem thirty_day_member_pays_twice:
  "let r1 = pay ''2024-06-01 09:00:00'' ''2024-06-01'' ''1001'' 2400 ''2024-06'' ''30-day'' app0;
       r2 = pay ''2024-06-02 09:00:00'' ''2024-06-02'' ''1001'' 2400 ''2024-06'' ''30-day'' (snd r1)
   in fst r1 = Inr None \<and> fst r2 = Inr None \<and>
      map (\<lambda>p. (p_user_id p, month p, period p)) (payments (committed (snd r2))) =
        [(''1001'', ''2024-06'', None), (''1001'', ''2024-06'', None)] \<and>
      fst (record_payment ''2024-06-02 09:00:00'' ''2024-06-02'' (Some 2400) ''2024-06''
             ''30-day'' (snd r1)) = Inl NoActiveMemberError"
  by (simp add: example_defs ledger_defs Let_def)

text \<open>
  C2 (the program departs from the claim). In \<open>app_after_plan_change\<close> Bilal is bound, on
  the 30-day plan, with both halves of June paid. A payment for June on the 15-day plan
  runs the \<^verbatim>\<open>UPDATE\<close> of his plan and then fails, the two halves being taken. The call
  returns with the update made and not undone: the connection shows Bilal on the 15-day
  plan, the state is not the state before the call, and the next commit of any operation
  (here a payment by Alice) makes the change durable.
\<close>

theorem failed_payment_keeps_plan_change:
  "let st = app_after_plan_change;
       r = record_payment ''2024-07-02 09:00:00'' ''2024-07-02'' (Some 1500) ''2024-06''
             ''15-day'' st;
       r' = pay ''2024-07-03 09:00:00'' ''2024-07-03'' ''1001'' 2400 ''2024-07'' ''30-day'' (snd r)
   in fst r = Inl PeriodExhaustedError \<and>
      map membership_type (members (conn st)) = [''30-day'', ''30-day''] \<and>
      map membership_type (members (conn (snd r))) = [''30-day'', ''15-day''] \<and>
      map membership_type (members (committed (snd r))) = [''30-day'', ''30-day''] \<and>
      snd r \<noteq> st \<and>
      fst r' = Inr None \<and>
      map membership_type (members (committed (snd r'))) = [''30-day'', ''15-day'']"
proof -
  have ms: "map membership_type (members (conn app_after_plan_change)) = [''30-day'', ''30-day'']"
    by (simp add: example_defs ledger_defs)
  have r: "fst (record_payment ''2024-07-02 09:00:00'' ''2024-07-02'' (Some 1500) ''2024-06''
             ''15-day'' app_after_plan_change) = Inl PeriodExhaustedError"
    by (simp add: example_defs ledger_defs)
  have ms': "map membership_type (members (conn (snd (record_payment ''2024-07-02 09:00:00''
      ''2024-07-02'' (Some 1500) ''2024-06'' ''15-day'' app_after_plan_change)))) =
      [''30-day'', ''15-day'']"
    by (simp add: example_defs ledger_defs)
  have cm: "map membership_type (members (committed (snd (record_payment ''2024-07-02 09:00:00''
      ''2024-07-02'' (Some 1500) ''2024-06'' ''15-day'' app_after_plan_change)))) =
      [''30-day'', ''30-day'']"
    by (simp add: example_defs ledger_defs)
  have ne: "snd (record_payment ''2024-07-02 09:00:00'' ''2024-07-02'' (Some 1500) ''2024-06''
      ''15-day'' app_after_plan_change) \<noteq> app_after_plan_change"
    using ms ms' by auto
  have r': "fst (pay ''2024-07-03 09:00:00'' ''2024-07-03'' ''1001'' 2400 ''2024-07'' ''30-day''
      (snd (record_payment ''2024-07-02 09:00:00'' ''2024-07-02'' (Some 1500) ''2024-06''
        ''15-day'' app_after_plan_change))) = Inr None"
    by (simp add: example_defs ledger_defs)
  have cm': "map membership_type (members (committed (snd (pay ''2024-07-03 09:00:00''
      ''2024-07-03'' ''1001'' 2400 ''2024-07'' ''30-day''
      (snd (record_payment ''2024-07-02 09:00:00'' ''2024-07-02'' (Some 1500) ''2024-06''
        ''15-day'' app_after_plan_change)))))) = [''30-day'', ''15-day'']"
    by (simp add: example_defs ledger_defs)
  show ?thesis
    unfolding Let_def using ms r ms' cm ne r' cm' by blast
qed

text \<open>
  What a failed \<open>record_payment\<close> does leave behind, in general: no payment row, nothing
  committed, the bound member kept; and the state as it was, unless the failure is the
  exhausted period, where the state is the one the plan change made.
\<close>

lemma failed_payment_effect:
  assumes "record_payment now today amount_entry mo mt st = (Inl e, st')"
  shows "payments (conn st') = payments (conn st)"
    and "committed st' = committed st"
    and "current_member st' = current_member st"
    and "e \<noteq> PeriodExhaustedError \<Longrightarrow> st' = st"
    and "e = PeriodExhaustedError \<Longrightarrow>
           \<exists>cm. current_member st = Some cm \<and> change_plan mt now cm st = Some st'"
proof -
  have *: "payments (conn st') = payments (conn st) \<and> committed st' = committed st \<and>
      current_member st' = current_member st \<and> (e \<noteq> PeriodExhaustedError \<longrightarrow> st' = st) \<and>
      (e = PeriodExhaustedError \<longrightarrow>
        (\<exists>cm. current_member st = Some cm \<and> change_plan mt now cm st = Some st'))"
  proof (cases "current_member st")
    case None
    with assms show ?thesis by (auto simp: record_payment_def)
  next
    case (Some cm)
    show ?thesis
    proof (cases "change_plan mt now cm st")
      case None
      with Some assms show ?thesis
        by (auto simp: record_payment_def split: option.splits if_splits)
    next
      case st1: (Some st1)
      note k = change_plan_keeps [OF st1]
      show ?thesis
      proof (cases "allocate_period mt (user_id cm) mo (conn st1)")
        case (Inl e1)
        then have "e1 = PeriodExhaustedError"
          by (auto simp: allocate_period_def Let_def split: if_splits)
        with Inl Some st1 k assms show ?thesis
          by (auto simp: record_payment_def split: option.splits if_splits)
      next
        case (Inr per)
        have free: "per = None \<or>
            per \<notin> set (existing_periods (user_id cm) mo (payments (conn st1)))"
          using Inr by (auto simp: allocate_period_def Let_def split: if_splits)
        from Inr Some st1 assms show ?thesis
          by (auto simp: record_payment_def insert_and_commit_free [OF free]
              split: option.splits if_splits)
      qed
    qed
  qed
  from * show "payments (conn st') = payments (conn st)" by simp
  from * show "committed st' = committed st" by simp
  from * show "current_member st' = current_member st" by simp
  from * show "e \<noteq> PeriodExhaustedError \<Longrightarrow> st' = st" by simp
  from * show "e = PeriodExhaustedError \<Longrightarrow>
      \<exists>cm. current_member st = Some cm \<and> change_plan mt now cm st = Some st'" by simp
qed

text \<open>
  The duplicate-payment message is never the fate of a payment on one of the two plans:
  the period chosen is always free, and a \<^verbatim>\<open>NULL\<close> period never conflicts. It is
  reached only through the \<^verbatim>\<open>CHECK\<close> of a plan name that is neither.
\<close>

lemma duplicate_error_only_from_check:
  assumes "fst (record_payment now today amount_entry mo mt st) = Inl DuplicatePaymentError"
  shows "\<not> membership_check mt"
proof
  assume ok: "membership_check mt"
  obtain st' where r: "record_payment now today amount_entry mo mt st =
      (Inl DuplicatePaymentError, st')"
    using assms by (cases "record_payment now today amount_entry mo mt st") auto
  from failed_payment_effect(4) [OF r] have same: "st' = st" by simp
  show False
  proof (cases "current_member st")
    case None
    with r show ?thesis by (simp add: record_payment_def)
  next
    case (Some cm)
    have "change_plan mt now cm st \<noteq> None"
      using ok by (auto simp: change_plan_def update_membership_type_def split: if_splits)
    then obtain st1 where st1: "change_plan mt now cm st = Some st1" by blast
    show ?thesis
    proof (cases "allocate_period mt (user_id cm) mo (conn st1)")
      case (Inl e1)
      then have "e1 = PeriodExhaustedError"
        by (auto simp: allocate_period_def Let_def split: if_splits)
      with Inl Some st1 r show ?thesis
        by (auto simp: record_payment_def split: option.splits if_splits)
    next
      case (Inr per)
      have free: "per = None \<or>
          per \<notin> set (existing_periods (user_id cm) mo (payments (conn st1)))"
        using Inr by (auto simp: allocate_period_def Let_def split: if_splits)
      from Inr Some st1 r show ?thesis
        by (auto simp: record_payment_def insert_and_commit_free [OF free]
            split: option.splits if_splits)
    qed
  qed
qed

section \<open>Properties of the member lifecycle\<close>

lemma fix_row_user_id: "user_id (fix_row now r) = user_id r"
  by (simp add: fix_row_def)

lemma fee_ok_fix_row: "fee_ok (fix_row now r)"
  by (simp add: fix_row_def fee_ok_def)

lemma map_other_keys:
  assumes "u \<notin> user_id ` set ys"
  shows "map (\<lambda>r. if user_id r = u then g r else r) ys = ys"
  using assms by (induction ys) auto

lemma reconcile_row_step:
  assumes "distinct (map user_id (pre @ x # xs))"
    and "members d = map (fix_row now) pre @ x # xs"
  shows "members (reconcile_row now x d) = map (fix_row now) (pre @ [x]) @ xs"
proof (cases "fee_ok x")
  case True
  with assms(2) show ?thesis
    by (simp add: reconcile_row_def fix_row_def fee_ok_def)
next
  case False
  have pre: "user_id x \<notin> user_id ` set (map (fix_row now) pre)"
    using assms(1) by (auto simp: fix_row_user_id)
  have xs: "user_id x \<notin> user_id ` set xs"
    using assms(1) by auto
  define e where "e = base_fee x + (if has_treadmill x then 400 else 0)"
  define upd :: "member \<Rightarrow> member" where
    "upd = (\<lambda>r. if user_id r = user_id x then r\<lparr>total_fee := e, updated_at := now\<rparr> else r)"
  have fx: "fix_row now x = upd x"
    using False by (simp add: fix_row_def upd_def e_def)
  have eq1: "map upd (map (fix_row now) pre) = map (fix_row now) pre"
    unfolding upd_def by (rule map_other_keys [OF pre])
  have eq2: "map upd xs = xs"
    unfolding upd_def by (rule map_other_keys [OF xs])
  have "reconcile_row now x d = set_total_fee e now (user_id x) d"
    using False by (simp add: reconcile_row_def fee_ok_def Let_def e_def)
  then have "members (reconcile_row now x d) = map upd (members d)"
    by (simp add: set_total_fee_def upd_def)
  also have "\<dots> = map upd (map (fix_row now) pre) @ upd x # map upd xs"
    by (simp only: assms(2) map_append list.map)
  also have "\<dots> = map (fix_row now) pre @ fix_row now x # xs"
    by (simp only: eq1 eq2 fx)
  finally show ?thesis by simp
qed

lemma fold_reconcile:
  assumes "distinct (map user_id (pre @ xs))"
    and "members d = map (fix_row now) pre @ xs"
  shows "members (fold (reconcile_row now) xs d) = map (fix_row now) (pre @ xs)"
  using assms
proof (induction xs arbitrary: pre d)
  case Nil
  then show ?case by simp
next
  case (Cons x xs)
  have step: "members (reconcile_row now x d) = map (fix_row now) (pre @ [x]) @ xs"
    using Cons.prems by (rule reconcile_row_step)
  have "distinct (map user_id ((pre @ [x]) @ xs))"
    using Cons.prems(1) by simp
  from Cons.IH [OF this step] show ?case by simp
qed

text \<open>
  With the primary key unique, the pass rewrites exactly the rows off the equation, each
  to its own derived fee, stamps only those, and commits.
\<close>

lemma update_total_fees_members:
  assumes "distinct (map user_id (members (conn st)))"
  shows "members (conn (update_total_fees now st)) = map (fix_row now) (members (conn st))"
    and "committed (update_total_fees now st) = conn (update_total_fees now st)"
  using fold_reconcile [of "[]" "members (conn st)" "conn st" now] assms
  by (simp_all add: update_total_fees_def commit_def)

lemma fee_ok_form_row: "fee_ok (form_row now f b photo)"
  by (simp add: form_row_def fee_ok_def)

lemma insert_member_fee:
  assumes "insert_member r d = Some d'" and "fee_ok r" and "list_all fee_ok (members d)"
  shows "list_all fee_ok (members d')"
  using assms by (auto simp: insert_member_def split: if_splits)

lemma update_member_row_fee:
  assumes "update_member_row now old f b photo d = Some d'" and "list_all fee_ok (members d)"
  shows "list_all fee_ok (members d')"
  using assms
  by (auto simp: update_member_row_def Let_def list_all_iff fee_ok_form_row split: if_splits)

lemma insert_member_rows:
  assumes "insert_member r d = Some d'" and "fee_ok r"
  shows "list_all (\<lambda>q. q \<in> set (members d) \<or> fee_ok q) (members d')"
  using assms by (auto simp: insert_member_def list_all_iff split: if_splits)

lemma update_member_row_rows:
  assumes "update_member_row now old f b photo d = Some d'"
  shows "list_all (\<lambda>q. q \<in> set (members d) \<or> fee_ok q) (members d')"
  using assms
  by (auto simp: update_member_row_def Let_def list_all_iff fee_ok_form_row split: if_splits)

lemma save_member_ok:
  assumes "fst (save_member now f st) = Inr ()"
  obtains b d where "insert_member (form_row now f b (new_photo_path f)) (conn st) = Some d"
    and "snd (save_member now f st) =
      \<lparr>conn = d, committed = d, current_member = current_member st\<rparr>"
  using assms
  by (auto simp: save_member_def commit_def split: sum.splits if_splits option.splits)

lemma update_member_ok:
  assumes "fst (update_member now selected f st) = Inr ()"
  obtains old b photo d where "update_member_row now old f b photo (conn st) = Some d"
    and "snd (update_member now selected f st) =
      \<lparr>conn = d, committed = d, current_member = current_member st\<rparr>"
  using assms
  by (auto simp: update_member_def commit_def split: sum.splits if_splits option.splits)

text \<open>
  C4. The fee equation \<open>total_fee = base_fee + (400 if has_treadmill else 0)\<close> at rest:
  \<^item> after the startup pass every committed row satisfies it (the primary key being
    unique, as the schema has it);
  \<^item> after a successful \<open>save_member\<close> every committed row is a row that was there
    before or satisfies it, so if every row satisfied it before, every row does after;
  \<^item> the same after a successful \<open>update_member\<close>.
\<close>

theorem total_fee_invariant:
  "(distinct (map user_id (members (conn st))) \<longrightarrow>
      list_all fee_ok (members (committed (update_total_fees now st))))
   \<and> (fst (save_member now f st) = Inr () \<longrightarrow>
      list_all (\<lambda>q. q \<in> set (members (conn st)) \<or> fee_ok q)
        (members (committed (snd (save_member now f st)))))
   \<and> (fst (save_member now f st) = Inr () \<and> list_all fee_ok (members (conn st)) \<longrightarrow>
      list_all fee_ok (members (committed (snd (save_member now f st)))))
   \<and> (fst (update_member now selected f st) = Inr () \<longrightarrow>
      list_all (\<lambda>q. q \<in> set (members (conn st)) \<or> fee_ok q)
        (members (committed (snd (update_member now selected f st)))))
   \<and> (fst (update_member now selected f st) = Inr () \<and> list_all fee_ok (members (conn st)) \<longrightarrow>
      list_all fee_ok (members (committed (snd (update_member now selected f st)))))"
proof (intro conjI impI)
  assume "distinct (map user_id (members (conn st)))"
  then show "list_all fee_ok (members (committed (update_total_fees now st)))"
    by (simp add: update_total_fees_members list_all_iff fee_ok_fix_row)
next
  assume "fst (save_member now f st) = Inr ()"
  then obtain b d where d: "insert_member (form_row now f b (new_photo_path f)) (conn st) = Some d"
    and st': "snd (save_member now f st) =
      \<lparr>conn = d, committed = d, current_member = current_member st\<rparr>"
    by (blast elim: save_member_ok)
  have "list_all (\<lambda>q. q \<in> set (members (conn st)) \<or> fee_ok q) (members d)"
    using d fee_ok_form_row by (rule insert_member_rows)
  then show "list_all (\<lambda>q. q \<in> set (members (conn st)) \<or> fee_ok q)
      (members (committed (snd (save_member now f st))))"
    by (simp add: st')
next
  assume a: "fst (save_member now f st) = Inr () \<and> list_all fee_ok (members (conn st))"
  then obtain b d where d: "insert_member (form_row now f b (new_photo_path f)) (conn st) = Some d"
    and st': "snd (save_member now f st) =
      \<lparr>conn = d, committed = d, current_member = current_member st\<rparr>"
    by (blast elim: save_member_ok)
  have "list_all fee_ok (members d)"
    using d fee_ok_form_row a by (blast intro: insert_member_fee)
  then show "list_all fee_ok (members (committed (snd (save_member now f st))))"
    by (simp add: st')
next
  assume "fst (update_member now selected f st) = Inr ()"
  then obtain old b photo d where d: "update_member_row now old f b photo (conn st) = Some d"
    and st': "snd (update_member now selected f st) =
      \<lparr>conn = d, committed = d, current_member = current_member st\<rparr>"
    by (blast elim: update_member_ok)
  have "list_all (\<lambda>q. q \<in> set (members (conn st)) \<or> fee_ok q) (members d)"
    using d by (rule update_member_row_rows)
  then show "list_all (\<lambda>q. q \<in> set (members (conn st)) \<or> fee_ok q)
      (members (committed (snd (update_member now selected f st))))"
    by (simp add: st')
next
  assume a: "fst (update_member now selected f st) = Inr () \<and>
    list_all fee_ok (members (conn st))"
  then obtain old b photo d where d: "update_member_row now old f b photo (conn st) = Some d"
    and st': "snd (update_member now selected f st) =
      \<lparr>conn = d, committed = d, current_member = current_member st\<rparr>"
    by (blast elim: update_member_ok)
  have "list_all fee_ok (members d)"
    using d a by (blast intro: update_member_row_fee)
  then show "list_all fee_ok (members (committed (snd (update_member now selected f st))))"
    by (simp add: st')
qed

lemma validate_carol_form: "validate_form carol_form = Inr 1800"
  by (simp add: validator_defs carol_form_def)

lemma validate_bilal_form: "validate_form bilal_form = Inr 1700"
  by (simp add: validator_defs bilal_form_def)

lemma fees_app0: "list_all fee_ok (members (conn app0))"
  by (simp add: app0_def db0_def alice_def bilal_def fee_ok_def)

text \<open>
  The witness: the pass repairs Alice's stale fee (2000 for a base fee of 2000 with the
  treadmill); Carol is created with a fee of 1800; Bilal's edit gives him 1700 + 400.
\<close>

theorem total_fee_invariant_witness:
  "map total_fee (members (committed (update_total_fees ''2024-06-01 08:00:00'' app_stale))) =
     [2400, 1500]
   \<and> list_all fee_ok (members (committed (update_total_fees ''2024-06-01 08:00:00'' app_stale)))
   \<and> map total_fee (members (committed (snd (save_member ''2024-06-01 10:00:00'' carol_form
        app0)))) = [2400, 1500, 1800]
   \<and> list_all fee_ok (members (committed (snd (save_member ''2024-06-01 10:00:00'' carol_form
        app0))))
   \<and> map total_fee (members (committed (snd (update_member ''2024-06-01 11:00:00''
        (Some ''1002'') bilal_form app0)))) = [2400, 2100]
   \<and> list_all fee_ok (members (committed (snd (update_member ''2024-06-01 11:00:00''
        (Some ''1002'') bilal_form app0))))"
proof -
  have d: "distinct (map user_id (members (conn app_stale)))"
    by (simp add: app_stale_def db0_def alice_def bilal_def)
  have s: "fst (save_member ''2024-06-01 10:00:00'' carol_form app0) = Inr ()"
    by (simp add: save_member_def validate_carol_form)
       (simp add: lifecycle_defs example_defs)
  have u: "fst (update_member ''2024-06-01 11:00:00'' (Some ''1002'') bilal_form app0) = Inr ()"
    by (simp add: update_member_def validate_bilal_form)
       (simp add: lifecycle_defs example_defs)
  have v1: "map total_fee (members (committed (update_total_fees ''2024-06-01 08:00:00''
      app_stale))) = [2400, 1500]"
    by (simp add: lifecycle_defs example_defs)
  have v2: "map total_fee (members (committed (snd (save_member ''2024-06-01 10:00:00''
      carol_form app0)))) = [2400, 1500, 1800]"
    by (simp add: save_member_def validate_carol_form)
       (simp add: lifecycle_defs example_defs)
  have v3: "map total_fee (members (committed (snd (update_member ''2024-06-01 11:00:00''
      (Some ''1002'') bilal_form app0)))) = [2400, 2100]"
    by (simp add: update_member_def validate_bilal_form)
       (simp add: lifecycle_defs example_defs)
  show ?thesis
    using d s u fees_app0 v1 v2 v3
      total_fee_invariant [of app_stale "''2024-06-01 08:00:00''" carol_form None]
      total_fee_invariant [of app0 "''2024-06-01 10:00:00''" carol_form None]
      total_fee_invariant [of app0 "''2024-06-01 11:00:00''" bilal_form "Some ''1002''"]
    by blast
qed

section \<open>Properties of the searches and reports\<close>

lemma filter_by_key:
  assumes "distinct (map user_id ms)"
  shows "filter (\<lambda>m. user_id m = u \<and> K m) ms =
     (case find (\<lambda>m. user_id m = u) ms of None \<Rightarrow> [] | Some m \<Rightarrow> if K m then [m] else [])"
  using assms
proof (induction ms)
  case Nil
  then show ?case by simp
next
  case (Cons m ms)
  show ?case
  proof (cases "user_id m = u")
    case True
    then have "u \<notin> user_id ` set ms" using Cons.prems by auto
    then have "filter (\<lambda>m. user_id m = u \<and> K m) ms = []"
      by (auto simp: filter_empty_conv)
    with True show ?thesis by simp
  next
    case False
    with Cons show ?thesis by simp
  qed
qed

lemma join_row_ledger_row:
  assumes "payment_member ms p = Some m"
  shows "join_row p m = ledger_row ms p"
proof -
  have "user_id m = p_user_id p"
    using assms by (auto simp: payment_member_def find_Some_iff)
  then show ?thesis
    using assms by (simp add: join_row_def ledger_row_def)
qed

lemma payment_report_rows_eq:
  assumes "distinct (map user_id (members d))"
  shows "payment_report_rows rt mo sport d =
     map (ledger_row (members d)) (matching_payments (kind_filter rt sport) mo d)"
proof -
  have "concat (map (\<lambda>p. map (join_row p)
            (filter (\<lambda>m. user_id m = p_user_id p \<and> kind_filter rt sport m) (members d)))
          (filter (\<lambda>p. month p = mo) ps)) =
        map (ledger_row (members d))
          (filter (\<lambda>p. month p = mo \<and>
                 (case payment_member (members d) p of None \<Rightarrow> False
                  | Some m \<Rightarrow> kind_filter rt sport m)) ps)" for ps
  proof (induction ps)
    case Nil
    then show ?case by simp
  next
    case (Cons p ps)
    show ?case
    proof (cases "payment_member (members d) p")
      case None
      with Cons show ?thesis
        by (simp add: filter_by_key [OF assms] payment_member_def)
    next
      case (Some m)
      with Cons join_row_ledger_row [OF Some] show ?thesis
        by (simp add: filter_by_key [OF assms] payment_member_def)
    qed
  qed
  then show ?thesis by (simp add: payment_report_rows_def matching_payments_def)
qed

lemma ledger_row_columns:
  "r_amount (ledger_row ms p) = amount p" "r_user_id (ledger_row ms p) = p_user_id p"
  by (simp_all add: ledger_row_def Let_def)

lemma report_of_kind:
  assumes "distinct (map user_id (members (conn st)))"
  shows "report_of (kind_filter rt sport) mo (conn st) (generate_payment_report rt mo sport st)"
proof -
  let ?ps = "matching_payments (kind_filter rt sport) mo (conn st)"
  have rows: "payment_report_rows rt mo sport (conn st) = map (ledger_row (members (conn st))) ?ps"
    using assms by (rule payment_report_rows_eq)
  have am: "map r_amount (map (ledger_row (members (conn st))) ?ps) = map amount ?ps"
    by (simp add: ledger_row_columns comp_def)
  have us: "map r_user_id (map (ledger_row (members (conn st))) ?ps) = map p_user_id ?ps"
    by (simp add: ledger_row_columns comp_def)
  show ?thesis
    unfolding report_of_def generate_payment_report_def rows Let_def
    by (simp add: length_remdups_card_conv am us del: set_map map_map)
qed

text \<open>
  C9. Over a member table with a unique primary key, for every month, each of the report
  types is the report of its condition: "All Members" of every member, "30-Day Plan" of
  the members whose plan is \<^verbatim>\<open>30-day\<close>, "15-Day Plan" of those whose plan is \<^verbatim>\<open>15-day\<close>,
  "Sport Category" with the sport "All" of every member and with another sport of the
  members of that sport. That is: the report has one row per payment of the month whose
  member satisfies the condition, with that payment's amount (two payments of one member
  in a 15-day month are two rows); the revenue of its summary is the sum of the amounts
  over the rows, and its member count is the number of distinct user ids over the rows.
  When no payment matches, the program shows no summary.
\<close>

theorem payment_report_rows_and_summary:
  assumes "distinct (map user_id (members (conn st)))"
  shows "report_of (\<lambda>m. True) mo (conn st)
           (generate_payment_report ''All Members'' mo sport st)
    \<and> report_of (\<lambda>m. membership_type m = ''30-day'') mo (conn st)
           (generate_payment_report ''30-Day Plan'' mo sport st)
    \<and> report_of (\<lambda>m. membership_type m = ''15-day'') mo (conn st)
           (generate_payment_report ''15-Day Plan'' mo sport st)
    \<and> report_of (\<lambda>m. True) mo (conn st)
           (generate_payment_report ''Sport Category'' mo (Some ''All'') st)
    \<and> (sp \<noteq> ''All'' \<longrightarrow>
         report_of (\<lambda>m. sport_category m = sp) mo (conn st)
           (generate_payment_report ''Sport Category'' mo (Some sp) st))"
proof -
  have k1: "kind_filter ''All Members'' sport = (\<lambda>m. True)"
    and k2: "kind_filter ''30-Day Plan'' sport = (\<lambda>m. membership_type m = ''30-day'')"
    and k3: "kind_filter ''15-Day Plan'' sport = (\<lambda>m. membership_type m = ''15-day'')"
    and k4: "kind_filter ''Sport Category'' (Some ''All'') = (\<lambda>m. True)"
    and k5: "sp \<noteq> ''All'' \<Longrightarrow>
      kind_filter ''Sport Category'' (Some sp) = (\<lambda>m. sport_category m = sp)"
    by (simp_all add: kind_filter_def fun_eq_iff)
  show ?thesis
  proof (intro conjI impI)
    show "report_of (\<lambda>m. True) mo (conn st)
        (generate_payment_report ''All Members'' mo sport st)"
      using report_of_kind [OF assms, of "''All Members''" sport mo] by (simp only: k1)
    show "report_of (\<lambda>m. membership_type m = ''30-day'') mo (conn st)
        (generate_payment_report ''30-Day Plan'' mo sport st)"
      using report_of_kind [OF assms, of "''30-Day Plan''" sport mo] by (simp only: k2)
    show "report_of (\<lambda>m. membership_type m = ''15-day'') mo (conn st)
        (generate_payment_report ''15-Day Plan'' mo sport st)"
      using report_of_kind [OF assms, of "''15-Day Plan''" sport mo] by (simp only: k3)
    show "report_of (\<lambda>m. True) mo (conn st)
        (generate_payment_report ''Sport Category'' mo (Some ''All'') st)"
      using report_of_kind [OF assms, of "''Sport Category''" "Some ''All''" mo]
      by (simp only: k4)
    show "report_of (\<lambda>m. sport_category m = sp) mo (conn st)
        (generate_payment_report ''Sport Category'' mo (Some sp) st)" if "sp \<noteq> ''All''"
      using report_of_kind [OF assms, of "''Sport Category''" "Some sp" mo]
      by (simp only: k5 [OF that])
  qed
qed

text \<open>
  The witness: June after the three payments of \<open>app_june\<close>. All members: payments 1, 2
  and 3, revenue 5400, two members. The 30-day plan: Alice's payment 2. The 15-day plan
  and the sport Squash: Bilal's payments 1 and 3, revenue 3000, one member.
\<close>

theorem payment_report_witness:
  "map_option (\<lambda>(rows, revenue, n, k). (mset (map r_id rows), revenue, n, k))
     (generate_payment_report ''All Members'' ''2024-06'' None app_june) =
     Some ({#1, 2, 3#}, 5400, 3, 2)
   \<and> map_option (\<lambda>(rows, revenue, n, k). (mset (map r_id rows), revenue, n, k))
     (generate_payment_report ''30-Day Plan'' ''2024-06'' None app_june) = Some ({#2#}, 2400, 1, 1)
   \<and> map_option (\<lambda>(rows, revenue, n, k). (mset (map r_id rows), revenue, n, k))
     (generate_payment_report ''15-Day Plan'' ''2024-06'' None app_june) =
     Some ({#1, 3#}, 3000, 2, 1)
   \<and> map_option (\<lambda>(rows, revenue, n, k). (mset (map r_id rows), revenue, n, k))
     (generate_payment_report ''Sport Category'' ''2024-06'' (Some ''All'') app_june) =
     Some ({#1, 2, 3#}, 5400, 3, 2)
   \<and> map_option (\<lambda>(rows, revenue, n, k). (mset (map r_id rows), revenue, n, k))
     (generate_payment_report ''Sport Category'' ''2024-06'' (Some ''Squash'') app_june) =
     Some ({#1, 3#}, 3000, 2, 1)
   \<and> report_of (\<lambda>m. membership_type m = ''15-day'') ''2024-06'' (conn app_june)
       (generate_payment_report ''15-Day Plan'' ''2024-06'' None app_june)
   \<and> report_of (\<lambda>m. sport_category m = ''Squash'') ''2024-06'' (conn app_june)
       (generate_payment_report ''Sport Category'' ''2024-06'' (Some ''Squash'') app_june)"
proof -
  have ev: "app_june = \<lparr>conn = db0\<lparr>payments :=
        [new_payment ''2024-06-01 09:00:00'' ''2024-06-01'' ''1002'' 1500 ''2024-06''
           (Some ''first_half'') db0,
         new_payment ''2024-06-02 09:00:00'' ''2024-06-02'' ''1001'' 2400 ''2024-06'' None
           (db0\<lparr>seq := 1\<rparr>),
         new_payment ''2024-06-16 09:00:00'' ''2024-06-16'' ''1002'' 1500 ''2024-06''
           (Some ''second_half'') (db0\<lparr>seq := 2\<rparr>)], seq := 3\<rparr>,
      committed = db0\<lparr>payments :=
        [new_payment ''2024-06-01 09:00:00'' ''2024-06-01'' ''1002'' 1500 ''2024-06''
           (Some ''first_half'') db0,
         new_payment ''2024-06-02 09:00:00'' ''2024-06-02'' ''1001'' 2400 ''2024-06'' None
           (db0\<lparr>seq := 1\<rparr>),
         new_payment ''2024-06-16 09:00:00'' ''2024-06-16'' ''1002'' 1500 ''2024-06''
           (Some ''second_half'') (db0\<lparr>seq := 2\<rparr>)], seq := 3\<rparr>,
      current_member = None\<rparr>"
    by (simp add: app_june_def example_defs ledger_defs)
  have d: "distinct (map user_id (members (conn app_june)))"
    by (simp add: ev) (simp add: example_defs)
  have v: "map_option (\<lambda>(rows, revenue, n, k). (mset (map r_id rows), revenue, n, k))
     (generate_payment_report ''All Members'' ''2024-06'' None app_june) =
     Some ({#1, 2, 3#}, 5400, 3, 2)"
   "map_option (\<lambda>(rows, revenue, n, k). (mset (map r_id rows), revenue, n, k))
     (generate_payment_report ''30-Day Plan'' ''2024-06'' None app_june) = Some ({#2#}, 2400, 1, 1)"
   "map_option (\<lambda>(rows, revenue, n, k). (mset (map r_id rows), revenue, n, k))
     (generate_payment_report ''15-Day Plan'' ''2024-06'' None app_june) =
     Some ({#1, 3#}, 3000, 2, 1)"
   "map_option (\<lambda>(rows, revenue, n, k). (mset (map r_id rows), revenue, n, k))
     (generate_payment_report ''Sport Category'' ''2024-06'' (Some ''All'') app_june) =
     Some ({#1, 2, 3#}, 5400, 3, 2)"
   "map_option (\<lambda>(rows, revenue, n, k). (mset (map r_id rows), revenue, n, k))
     (generate_payment_report ''Sport Category'' ''2024-06'' (Some ''Squash'') app_june) =
     Some ({#1, 3#}, 3000, 2, 1)"
    by (simp_all add: ev) (simp_all add: example_defs report_defs new_payment_def)
  have sq: "''Squash'' \<noteq> ''All''" by simp
  show ?thesis
    using v sq payment_report_rows_and_summary [OF d, of "''2024-06''" None "''Squash''"]
    by blast
qed

text \<open>
  What the two searches do keep: they return active rows only, and the member tab's
  search finds a member by its user id, alone when the primary key is unique.
\<close>

lemma searches_return_active_only:
  "search_members v st = Inr rows \<Longrightarrow>
     set rows \<subseteq> (\<lambda>r. (user_id r, name r, cnic r, membership_type r)) `
                   {r \<in> set (members (conn st)). is_active r}"
  "fst (search_member v st) = Inr m \<Longrightarrow> m \<in> set (members (conn st)) \<and> is_active m"
  by (auto simp: search_members_def search_member_def search_member_row_def find_Some_iff
      split: if_splits option.splits)

lemma find_by_key:
  "distinct (map user_id ms) \<Longrightarrow> r \<in> set ms \<Longrightarrow>
     find (\<lambda>m. user_id m = user_id r) ms = Some r"
  by (induction ms) (auto simp: image_iff)

lemma search_members_by_user_id:
  assumes "distinct (map user_id (members (conn st)))"
    and "r \<in> set (members (conn st))" and "is_active r" and "validate_user_id (user_id r)"
  shows "search_members (user_id r) st =
     Inr [(user_id r, name r, cnic r, membership_type r)]"
proof -
  have "find (\<lambda>m. user_id m = user_id r) (members (conn st)) = Some r"
    using assms(1,2) by (rule find_by_key)
  then have "filter (\<lambda>m. user_id m = user_id r \<and> is_active m) (members (conn st)) = [r]"
    using assms(3) by (simp add: filter_by_key [OF assms(1)])
  then show ?thesis
    using assms(4) by (simp add: search_members_def validate_user_id_def)
qed

text \<open>
  C6 (the program departs from the claim). Alice is active and her CNIC is thirteen
  digits. In the member tab's search her CNIC, being all digits, is looked up as a user
  id, and nobody is found; her user id finds her. In the payment tab's search, which
  matches either column, her CNIC binds Dawood, whose user id has the same digits: the
  match by user id is fetched first.
\<close>

theorem search_by_cnic_finds_nobody:
  "is_active alice \<and> validate_cnic (cnic alice) \<and>
   map cnic (filter is_active (members (conn app0))) = [cnic alice, cnic bilal] \<and>
   search_members (cnic alice) app0 = Inr [] \<and>
   search_members (user_id alice) app0 =
     Inr [(''1001'', ''Alice'', ''1234567890123'', ''30-day'')] \<and>
   fst (search_member (cnic alice) app_clash) = Inr dawood"
  by (simp add: example_defs search_members_def search_member_def search_member_row_def
      validate_cnic_def
      all_digits_def is_digit_def)

subsection \<open>The expiry report on padded dates\<close>

lemma below_ten_cases:
  assumes "k < (10::nat)"
  obtains "k = 0" | "k = 1" | "k = 2" | "k = 3" | "k = 4" | "k = 5" | "k = 6" | "k = 7"
    | "k = 8" | "k = 9"
  using assms by atomize_elim arith

lemma digit_char_props:
  "digit_val (digit_char n) = n mod 10"
  "is_digit (digit_char n)"
  "(of_char (digit_char n) :: nat) = 48 + n mod 10"
proof -
  have "n mod 10 < 10" by simp
  then have "digit_val (digit_char n) = n mod 10 \<and> is_digit (digit_char n) \<and>
      (of_char (digit_char n) :: nat) = 48 + n mod 10"
    unfolding digit_char_def
    by (cases rule: below_ten_cases [of "n mod 10"])
       (simp_all add: digit_val_def is_digit_def)
  then show "digit_val (digit_char n) = n mod 10" "is_digit (digit_char n)"
    "(of_char (digit_char n) :: nat) = 48 + n mod 10" by simp_all
qed

lemma digit_char_less: "(digit_char a < digit_char b) = (a mod 10 < b mod 10)"
  by (simp add: less_char_def digit_char_props)

lemma digit_char_eq: "(digit_char a = digit_char b) = (a mod 10 = b mod 10)"
proof
  assume "digit_char a = digit_char b"
  then have "digit_val (digit_char a) = digit_val (digit_char b)" by simp
  then show "a mod 10 = b mod 10" by (simp add: digit_char_props)
next
  assume "a mod 10 = b mod 10"
  then show "digit_char a = digit_char b" by (simp add: digit_char_def)
qed

lemma less_by_tens:
  fixes a b :: nat
  shows "(a div 10 < b div 10 \<or> (a div 10 = b div 10 \<and> a mod 10 < b mod 10)) = (a < b)"
proof -
  define qa ra qb rb where "qa = a div 10" and "ra = a mod 10" and "qb = b div 10"
    and "rb = b mod 10"
  have a: "a = 10 * qa + ra" and b: "b = 10 * qb + rb" and r: "ra < 10" "rb < 10"
    by (simp_all add: qa_def ra_def qb_def rb_def)
  have "(qa < qb \<or> (qa = qb \<and> ra < rb)) = (10 * qa + ra < 10 * qb + rb)"
    using r by arith
  then show ?thesis
    unfolding qa_def [symmetric] ra_def [symmetric] qb_def [symmetric] rb_def [symmetric]
    using a b by simp
qed

lemma less_by_hundreds:
  fixes a b :: nat
  shows "(a div 100 < b div 100 \<or> (a div 100 = b div 100 \<and> a mod 100 < b mod 100)) = (a < b)"
proof -
  define qa ra qb rb where "qa = a div 100" and "ra = a mod 100" and "qb = b div 100"
    and "rb = b mod 100"
  have a: "a = 100 * qa + ra" and b: "b = 100 * qb + rb" and r: "ra < 100" "rb < 100"
    by (simp_all add: qa_def ra_def qb_def rb_def)
  have "(qa < qb \<or> (qa = qb \<and> ra < rb)) = (100 * qa + ra < 100 * qb + rb)"
    using r by arith
  then show ?thesis
    unfolding qa_def [symmetric] ra_def [symmetric] qb_def [symmetric] rb_def [symmetric]
    using a b by simp
qed

lemma eq_by_div_mod:
  fixes a b :: nat
  shows "(a div k = b div k \<and> a mod k = b mod k) = (a = b)"
  by (metis div_mult_mod_eq)

lemma pad2_less:
  assumes "a < 100" "b < 100"
  shows "(pad2 a < pad2 b) = (a < b)" and "(pad2 a = pad2 b) = (a = b)"
proof -
  have m: "a div 10 mod 10 = a div 10" "b div 10 mod 10 = b div 10"
    using assms by simp_all
  have "(pad2 a < pad2 b) =
      (a div 10 < b div 10 \<or> (a div 10 = b div 10 \<and> a mod 10 < b mod 10))"
    by (simp add: pad2_def digit_char_less digit_char_eq m)
  then show "(pad2 a < pad2 b) = (a < b)" by (simp only: less_by_tens)
  have "(pad2 a = pad2 b) = (a div 10 = b div 10 \<and> a mod 10 = b mod 10)"
    by (simp add: pad2_def digit_char_eq m)
  then show "(pad2 a = pad2 b) = (a = b)" by (simp only: eq_by_div_mod)
qed

lemma less_append_same_length:
  assumes "length xs = length xs'"
  shows "((xs @ ys :: 'a :: linorder list) < xs' @ ys') = (xs < xs' \<or> (xs = xs' \<and> ys < ys'))"
  using assms by (induction xs xs' rule: list_induct2) auto

lemma length_pad [simp]: "length (pad2 n) = 2" "length (pad4 n) = 4"
  by (simp_all add: pad2_def pad4_def)

lemma pad4_less:
  assumes "a < 10000" "b < 10000"
  shows "(pad4 a < pad4 b) = (a < b)" and "(pad4 a = pad4 b) = (a = b)"
proof -
  have d: "a div 100 < 100" "b div 100 < 100" "a mod 100 < 100" "b mod 100 < 100"
    using assms by simp_all
  have "(pad4 a < pad4 b) =
      (a div 100 < b div 100 \<or> (a div 100 = b div 100 \<and> a mod 100 < b mod 100))"
    by (simp add: pad4_def less_append_same_length pad2_less d)
  then show "(pad4 a < pad4 b) = (a < b)" by (simp only: less_by_hundreds)
  have "(pad4 a = pad4 b) = (a div 100 = b div 100 \<and> a mod 100 = b mod 100)"
    by (simp add: pad4_def pad2_less d)
  then show "(pad4 a = pad4 b) = (a = b)" by (simp only: eq_by_div_mod)
qed

lemma iso_date_less:
  assumes "y < 10000" "y' < 10000" "m < 100" "m' < 100" "d < 100" "d' < 100"
  shows "(iso_date y m d < iso_date y' m' d') = date_less (y, m, d) (y', m', d')"
proof -
  have "(iso_date y m d < iso_date y' m' d') =
      (pad4 y < pad4 y' \<or> (pad4 y = pad4 y' \<and>
        (pad2 m < pad2 m' \<or> (pad2 m = pad2 m' \<and> pad2 d < pad2 d'))))"
    unfolding iso_date_def
    by (simp add: less_append_same_length)
  then show ?thesis
    by (simp add: pad4_less pad2_less assms date_less_def)
qed

text \<open>From the year 1000 on the program's date text is the padded one.\<close>

lemma strftime_ymd_iso: "1000 \<le> y \<Longrightarrow> strftime_ymd y m d = iso_date y m d"
  by (simp add: strftime_ymd_def iso_date_def year_text_def)

lemma is_digit_not_dash: "is_digit c \<Longrightarrow> c \<noteq> CHR ''-''"
  by (auto simp: is_digit_def)

lemma split_dash_digits: "all_digits s \<Longrightarrow> split_dash s = [s]"
  by (induction s) (auto simp: all_digits_def dest: is_digit_not_dash)

lemma split_dash_append:
  "all_digits a \<Longrightarrow> split_dash (a @ CHR ''-'' # b) = a # split_dash b"
  by (induction a) (auto simp: all_digits_def dest: is_digit_not_dash)

lemma all_digits_pad: "all_digits (pad2 n)" "all_digits (pad4 n)"
  by (simp_all add: all_digits_def pad4_def pad2_def digit_char_props)

lemma nat_of_digits_pad2: "n < 100 \<Longrightarrow> nat_of_digits (pad2 n) = n"
  by (simp add: nat_of_digits_def pad2_def digit_char_props)

lemma nat_of_digits_pad4: "n < 10000 \<Longrightarrow> nat_of_digits (pad4 n) = n"
proof -
  assume "n < 10000"
  then have d: "n div 100 < 100" by simp
  have "nat_of_digits (pad4 n) = 100 * nat_of_digits (pad2 (n div 100)) + n mod 100"
    by (simp add: nat_of_digits_def pad4_def pad2_def digit_char_props)
  then show ?thesis by (simp add: nat_of_digits_pad2 d)
qed

lemma end_date_of_month:
  assumes "1 \<le> y" "y \<le> 9999" "m \<le> 12" "y < 9999 \<or> m < 12"
  shows "end_date (pad4 y @ ''-'' @ pad2 m) =
     Some (case next_month_first y m of (y', m', d') \<Rightarrow> strftime_ymd y' m' d')"
proof -
  have s: "split_dash (pad4 y @ CHR ''-'' # pad2 m) = [pad4 y, pad2 m]"
    by (simp add: split_dash_append split_dash_digits all_digits_pad)
  have ne: "pad4 y \<noteq> []" "pad2 m \<noteq> []"
    by (simp_all add: pad4_def pad2_def)
  have i: "py_int (pad4 y) = Some y" "py_int (pad2 m) = Some m"
    using assms by (simp_all add: py_int_def all_digits_pad nat_of_digits_pad2 nat_of_digits_pad4 ne)
  have "map py_int (split_dash (pad4 y @ ''-'' @ pad2 m)) = [Some y, Some m]"
    by (simp add: s i)
  then have "end_date (pad4 y @ ''-'' @ pad2 m) =
      (if m < 12 then Some (strftime_ymd y (m + 1) 1) else Some (strftime_ymd (y + 1) 1 1))"
    unfolding end_date_def using assms by auto
  then show ?thesis
    by (simp add: next_month_first_def)
qed

lemma nat_of_digits_snoc: "nat_of_digits (s @ [c]) = 10 * nat_of_digits s + digit_val c"
  by (simp add: nat_of_digits_def)

lemma digit_val_le: "is_digit c \<Longrightarrow> digit_val c \<le> 9"
  by (auto simp: is_digit_def digit_val_def)

lemma nat_of_digits_bound: "all_digits s \<Longrightarrow> nat_of_digits s < 10 ^ length s"
proof (induction s rule: rev_induct)
  case Nil
  then show ?case by (simp add: nat_of_digits_def)
next
  case (snoc c s)
  then have "nat_of_digits s < 10 ^ length s" and "digit_val c \<le> 9"
    by (simp_all add: all_digits_def digit_val_le)
  then show ?case
    by (simp add: nat_of_digits_snoc)
qed

lemma strptime_ymd_bounds:
  assumes "strptime_ymd s = Some (y, m, d)"
  shows "y < 10000" and "m \<le> 12" and "d \<le> 31"
proof -
  from assms obtain ys ms ds where f: "year_field ys" "month_field ms" "day_field ds"
    and v: "y = nat_of_digits ys" "m = nat_of_digits ms" "d = nat_of_digits (day_digits ds)"
    by (auto simp: strptime_ymd_def Let_def split: list.splits if_splits)
  have "nat_of_digits ys < 10 ^ length ys"
    using f(1) by (intro nat_of_digits_bound) (simp add: year_field_def)
  then show "y < 10000" using f(1) v(1) by (simp add: year_field_def)
  show "m \<le> 12" using f(2) v(2) by (simp add: month_field_def)
  show "d \<le> 31" using f(3) v(3) by (simp add: day_field_def)
qed

lemma padded_date_less:
  assumes "padded_date (expiry_date r)" and "y' < 10000" "m' < 100" "d' < 100"
  shows "(expiry_date r < iso_date y' m' d') = expired_before (y', m', d') r"
proof -
  from assms(1) obtain y m d where p: "strptime_ymd (expiry_date r) = Some (y, m, d)"
    and e: "expiry_date r = iso_date y m d"
    by (auto simp: padded_date_def split: option.splits)
  have "y < 10000" "m < 100" "d < 100"
    using strptime_ymd_bounds [OF p] by simp_all
  then have "(iso_date y m d < iso_date y' m' d') = date_less (y, m, d) (y', m', d')"
    using assms(2-4) by (intro iso_date_less)
  moreover have "expired_before (y', m', d') r = date_less (y, m, d) (y', m', d')"
    by (simp add: expired_before_def p)
  ultimately show ?thesis
    by (simp add: e)
qed

text \<open>
  For a billing month of a year \<open>y\<close> from 1000 on and month \<open>m\<close>, written \<^verbatim>\<open>YYYY-MM\<close>,
  and a member table whose expiry dates are all padded, the report lists exactly the
  active members whose expiry date is, in the calendar, before the first day of the next
  month (January of the next year after December), each with the greatest payment date
  of the member or \<^verbatim>\<open>NULL\<close>.
\<close>

lemma expired_report_padded:
  assumes "1000 \<le> y" "y \<le> 9999" "m \<le> 12" "y < 9999 \<or> m < 12"
    and "list_all (\<lambda>r. padded_date (expiry_date r)) (members (conn st))"
  shows "generate_expired_report (pad4 y @ ''-'' @ pad2 m) st =
     Inr (map (expired_row_of (payments (conn st)))
            (filter (\<lambda>r. expired_before (next_month_first y m) r \<and> is_active r)
               (members (conn st))))"
proof -
  obtain y' m' d' where n: "next_month_first y m = (y', m', d')"
    by (cases "next_month_first y m") auto
  then have b: "1000 \<le> y'" "y' < 10000" "m' < 100" "d' < 100"
    using assms(1-4) by (auto simp: next_month_first_def split: if_splits)
  have y1: "1 \<le> y" using assms(1) by simp
  have e: "end_date (pad4 y @ ''-'' @ pad2 m) = Some (iso_date y' m' d')"
    using end_date_of_month [OF y1 assms(2-4)] n by (simp add: strftime_ymd_iso b)
  have "filter (\<lambda>r. expiry_date r < iso_date y' m' d' \<and> is_active r) (members (conn st)) =
      filter (\<lambda>r. expired_before (y', m', d') r \<and> is_active r) (members (conn st))"
    using assms(5) by (intro filter_cong) (auto simp: list_all_iff padded_date_less b)
  then show ?thesis
    unfolding generate_expired_report_def e n by simp
qed

text \<open>
  C7 (the program departs from the claim). Carol is created with the expiry date typed
  as \<^verbatim>\<open>2024-6-15\<close>, which \<open>validate_date\<close> accepts as 15 June 2024. The report of the
  members expired by the end of June 2024 compares the texts: against the boundary
  \<^verbatim>\<open>2024-07-01\<close> Bilal (\<^verbatim>\<open>2024-06-30\<close>) is listed, Alice (\<^verbatim>\<open>2024-07-01\<close>) is not, and
  Carol, expired a fortnight before the boundary, is not either.
\<close>

theorem unpadded_expiry_never_reported:
  "let r = save_member ''2024-06-01 10:00:00'' carol_form app0
   in fst r = Inr () \<and>
      strptime_ymd (f_expiry_date carol_form) = Some (2024, 6, 15) \<and>
      end_date ''2024-06'' = Some ''2024-07-01'' \<and>
      map (\<lambda>m. (user_id m, expiry_date m, is_active m)) (members (conn (snd r))) =
        [(''1001'', ''2024-07-01'', True), (''1002'', ''2024-06-30'', True),
         (''1003'', ''2024-6-15'', True)] \<and>
      generate_expired_report ''2024-06'' (snd r) = Inr [expired_row_of [] bilal]"
proof -
  have 1: "save_member ''2024-06-01 10:00:00'' carol_form app0 =
      (Inr (), commit (app0\<lparr>conn := (conn app0)\<lparr>members := members (conn app0) @
          [form_row ''2024-06-01 10:00:00'' carol_form 1800 None]\<rparr>\<rparr>))"
    by (simp add: save_member_def validate_carol_form)
       (simp add: lifecycle_defs example_defs)
  have 2: "strptime_ymd (f_expiry_date carol_form) = Some (2024, 6, 15)"
    by (simp add: validator_defs carol_form_def)
  have 3: "end_date ''2024-06'' = Some ''2024-07-01''"
    by (simp add: report_defs nat_of_digits_def digit_val_def all_digits_def is_digit_def)
  show ?thesis
    unfolding Let_def 1
    by (simp add: 2 3) (simp add: generate_expired_report_def 3 lifecycle_defs example_defs
        expired_row_of_def last_payment_def)
qed

end
